theory Spec2Isabelle
  imports Complex_Main "HOL-Library.Word" "HOL-Library.Signed_Division"
    "HOL-Library.AList" "HOL-Library.Char_ord" "HOL-Library.List_Lexorder"
begin

section \<open>Machine integers and Go maps\<close>

type_synonym int32 = "32 word"
type_synonym int64 = "64 word"

text \<open>
  Go's \<^verbatim>\<open>/\<close> on \<^verbatim>\<open>int64\<close>: the quotient is truncated towards zero, and the one
  overflowing case (the most negative value divided by \<open>-1\<close>) wraps around. A zero
  divisor panics in Go; every division of \<^verbatim>\<open>output.go\<close> is either by the constant
  \<open>2\<close> or behind a test that the divisor is not zero, so the panic is unreachable
  and the function is left total here.
\<close>

definition int64_div :: "int64 \<Rightarrow> int64 \<Rightarrow> int64" where
  "int64_div a b = word_of_int (sint a sdiv sint b)"

text \<open>
  A value of type \<^verbatim>\<open>map[int64]int64\<close> is a list of key/count pairs with distinct
  keys. The order of the list stands for the order in which \<^verbatim>\<open>range\<close> happens to
  visit the map, which the Go runtime leaves unspecified; the nil map and the empty
  map are both \<open>[]\<close> (the code only reads them).
\<close>

type_synonym gomap = "(int64 \<times> int64) list"

definition wf_gomap :: "gomap \<Rightarrow> bool" where
  "wf_gomap m = distinct (map fst m)"

text \<open>\<^verbatim>\<open>m[k]\<close>: the zero value when the key is missing.\<close>

definition index :: "gomap \<Rightarrow> int64 \<Rightarrow> int64" where
  "index m k = (case map_of m k of None \<Rightarrow> 0 | Some v \<Rightarrow> v)"

text \<open>\<^verbatim>\<open>int64(len(m))\<close>.\<close>

definition len64 :: "gomap \<Rightarrow> int64" where
  "len64 m = word_of_nat (length m)"

text \<open>\<^verbatim>\<open>for k := range m { keys = append(keys, k) }\<close>.\<close>

definition range_keys :: "gomap \<Rightarrow> int64 list" where
  "range_keys m = map fst m"

text \<open>
  \<^verbatim>\<open>sort.Slice(keys, func(i, j int) bool { return keys[i] < keys[j] })\<close> on
  \<^verbatim>\<open>int64\<close> keys: ascending in the signed order.
\<close>

definition sort_Slice :: "int64 list \<Rightarrow> int64 list" where
  "sort_Slice ks = sort_key sint ks"

text \<open>
  \<^verbatim>\<open>float64\<close> values are kept abstract: the type \<open>'f\<close> stands for them, and the
  operations the program applies to them are taken as given, so that every theorem
  holds whatever these operations compute (for IEEE 754 arithmetic in particular).
\<close>

record 'f float64_ops =
  f64_zero :: 'f  \<comment> \<open>the constant \<^verbatim>\<open>float64(0)\<close>\<close>
  f64_of_int64 :: "int64 \<Rightarrow> 'f"  \<comment> \<open>the conversion \<^verbatim>\<open>float64(x)\<close> of an \<^verbatim>\<open>int64\<close>\<close>
  f64_of_int32 :: "int32 \<Rightarrow> 'f"  \<comment> \<open>the conversion \<^verbatim>\<open>float64(x)\<close> of an \<^verbatim>\<open>int32\<close>\<close>
  f64_div :: "'f \<Rightarrow> 'f \<Rightarrow> 'f"  \<comment> \<open>\<^verbatim>\<open>x / y\<close>\<close>
  f64_mul :: "'f \<Rightarrow> 'f \<Rightarrow> 'f"  \<comment> \<open>\<^verbatim>\<open>x * y\<close>\<close>
  FormatFloat :: "'f \<Rightarrow> string"  \<comment> \<open>\<^verbatim>\<open>strconv.FormatFloat(x, 'f', 2, 64)\<close>\<close>
  f64_json :: "'f \<Rightarrow> string option"
    \<comment> \<open>the number literal \<^verbatim>\<open>encoding/json\<close> writes for \<open>x\<close>; \<open>None\<close> for NaN and the infinities\<close>

section \<open>Derivation functions\<close>

text \<open>
  The second loop of \<^verbatim>\<open>getMedianResponseTime\<close>: \<open>pos\<close> is the running position,
  the result is the value of \<^verbatim>\<open>medianResponseTime\<close> when the loop ends (still \<open>0\<close>
  when it never breaks).
\<close>

fun median_loop :: "gomap \<Rightarrow> int64 list \<Rightarrow> int64 \<Rightarrow> int64" where
  "median_loop responseTimes [] pos = 0"
| "median_loop responseTimes (k # ks) pos =
     (if pos <s index responseTimes k then k
      else median_loop responseTimes ks (pos - index responseTimes k))"

definition getMedianResponseTime :: "int64 \<Rightarrow> gomap \<Rightarrow> int64" where
  "getMedianResponseTime numRequests responseTimes =
     (if length responseTimes \<noteq> 0 then
        (let pos = int64_div (numRequests - 1) 2;
             sortedKeys = sort_Slice (range_keys responseTimes)
         in median_loop responseTimes sortedKeys pos)
      else 0)"

definition getAvgResponseTime :: "'f float64_ops \<Rightarrow> int64 \<Rightarrow> int64 \<Rightarrow> 'f" where
  "getAvgResponseTime F numRequests totalResponseTime =
     (if numRequests \<noteq> 0
      then f64_div F (f64_of_int64 F totalResponseTime) (f64_of_int64 F numRequests)
      else f64_zero F)"

definition getAvgContentLength :: "int64 \<Rightarrow> int64 \<Rightarrow> int64" where
  "getAvgContentLength numRequests totalContentLength =
     (if numRequests \<noteq> 0 then int64_div totalContentLength numRequests else 0)"

definition getCurrentRps :: "int64 \<Rightarrow> gomap \<Rightarrow> int64" where
  "getCurrentRps numRequests numReqsPerSecond =
     (let numReqsPerSecondLength = len64 numReqsPerSecond
      in if numReqsPerSecondLength \<noteq> 0 then int64_div numRequests numReqsPerSecondLength
         else 0)"

definition getCurrentFailPerSec :: "int64 \<Rightarrow> gomap \<Rightarrow> int64" where
  "getCurrentFailPerSec numFailures numFailPerSecond =
     (let numFailPerSecondLength = len64 numFailPerSecond
      in if numFailPerSecondLength \<noteq> 0 then int64_div numFailures numFailPerSecondLength
         else 0)"

definition getTotalFailRatio :: "'f float64_ops \<Rightarrow> int64 \<Rightarrow> int64 \<Rightarrow> 'f" where
  "getTotalFailRatio F totalRequests totalFailures =
     (if totalRequests = 0 then f64_zero F
      else f64_div F (f64_of_int64 F totalFailures) (f64_of_int64 F totalRequests))"

section \<open>Dynamically typed values and errors\<close>

text \<open>
  The errors the program can hold: one made by \<^verbatim>\<open>fmt.Errorf\<close>, the two kinds
  \<^verbatim>\<open>encoding/json\<close> reports for the values below (an \<^verbatim>\<open>UnmarshalTypeError\<close> carries
  its \<^verbatim>\<open>Value\<close> description and the name of the Go type it could not be stored in),
  and any other error by its message (the push gateway's).
\<close>

datatype error =
    Errorf string
  | UnsupportedValueError
  | UnmarshalTypeError string string
  | OtherError string

text \<open>
  A value of type \<^verbatim>\<open>interface{}\<close>, tagged with its dynamic type: the nil interface,
  the scalar types, \<^verbatim>\<open>[]interface{}\<close> and \<^verbatim>\<open>map[string]interface{}\<close> (each nil or
  not). These are the types a runner and a generic JSON decoder put into an event;
  \<^verbatim>\<open>int\<close> is taken at 64 bits. A map is a list of pairs with distinct keys.
\<close>

datatype 'f dyn =
    DNil
  | DBool bool
  | DInt int64
  | DInt32 int32
  | DInt64 int64
  | DFloat64 'f
  | DString string
  | DNilSlice
  | DSlice "'f dyn list"
  | DNilMap
  | DMap "(string \<times> 'f dyn) list"

text \<open>\<^verbatim>\<open>data[key]\<close> on a \<^verbatim>\<open>map[string]interface{}\<close>: the nil interface when the key is missing.\<close>

definition map_index :: "(string \<rightharpoonup> 'f dyn) \<Rightarrow> string \<Rightarrow> 'f dyn" where
  "map_index data key = (case data key of None \<Rightarrow> DNil | Some v \<Rightarrow> v)"

text \<open>The type assertions \<^verbatim>\<open>v.(int32)\<close> and \<^verbatim>\<open>v.([]interface{})\<close>; \<open>None\<close> is \<^verbatim>\<open>ok == false\<close>.\<close>

fun assert_int32 :: "'f dyn \<Rightarrow> int32 option" where
  "assert_int32 (DInt32 v) = Some v"
| "assert_int32 _ = None"

fun assert_slice :: "'f dyn \<Rightarrow> 'f dyn list option" where
  "assert_slice (DSlice vs) = Some vs"
| "assert_slice DNilSlice = Some []"
| "assert_slice _ = None"

section \<open>The library functions the decoder calls\<close>

subsection \<open>\<^verbatim>\<open>strconv\<close>\<close>

definition digit_char :: "nat \<Rightarrow> char" where
  "digit_char d = char_of (48 + d)"

fun nat_digits :: "nat \<Rightarrow> string" where
  "nat_digits n = (if n < 10 then [digit_char n] else nat_digits (n div 10) @ [digit_char (n mod 10)])"

declare nat_digits.simps [simp del]

text \<open>\<^verbatim>\<open>strconv.FormatInt(i, 10)\<close>.\<close>

definition FormatInt :: "int \<Rightarrow> string" where
  "FormatInt i = (if i < 0 then CHR ''-'' # nat_digits (nat (- i)) else nat_digits (nat i))"

definition is_digit :: "char \<Rightarrow> bool" where
  "is_digit c = (48 \<le> (of_char c :: nat) \<and> (of_char c :: nat) \<le> 57)"

definition digits_value :: "string \<Rightarrow> nat" where
  "digits_value ds = foldl (\<lambda>acc c. 10 * acc + (of_char c - 48)) 0 ds"

text \<open>
  \<^verbatim>\<open>strconv.ParseInt(s, 10, 64)\<close>: an optional sign, then one or more decimal digits
  and nothing else; a value outside the \<^verbatim>\<open>int64\<close> range is an error.
\<close>

definition ParseInt :: "string \<Rightarrow> int64 option" where
  "ParseInt s =
     (let neg = (s \<noteq> [] \<and> hd s = CHR ''-'');
          ds = (if s \<noteq> [] \<and> (hd s = CHR ''+'' \<or> hd s = CHR ''-'') then tl s else s)
      in if ds = [] \<or> \<not> list_all is_digit ds then None
         else (let v = (if neg then - int (digits_value ds) else int (digits_value ds))
               in if - (2 ^ 63) \<le> v \<and> v < 2 ^ 63 then Some (word_of_int v) else None))"

subsection \<open>\<^verbatim>\<open>encoding/json\<close>\<close>

text \<open>
  \<^verbatim>\<open>json.Marshal\<close> followed by \<^verbatim>\<open>json.Unmarshal\<close>, as the package documents them.
  The bytes in between are represented by the JSON text's syntax tree; a number keeps
  its literal, a string is held decoded. Go values are finite trees here (a map that
  contains itself is not a \<open>dyn\<close>), and the decoder's limit on the nesting depth of
  its input is not modelled.
\<close>

datatype json =
    JNull
  | JBool bool
  | JNumber string
  | JString string
  | JArray "json list"
  | JObject "(string \<times> json) list"

text \<open>
  The encoder writes the replacement character U+FFFD for every byte of a string that
  does not start a valid UTF-8 encoding (\<^verbatim>\<open>utf8.DecodeRuneInString\<close> returning
  \<^verbatim>\<open>RuneError\<close> with width 1), so that is what the decoder reads back.
\<close>

definition byte_in :: "char \<Rightarrow> nat \<Rightarrow> nat \<Rightarrow> bool" where
  "byte_in c lo hi = (lo \<le> of_char c \<and> (of_char c :: nat) \<le> hi)"

text \<open>The width of the valid encoding at the head of the bytes, \<open>0\<close> when there is none.\<close>

fun rune_width :: "string \<Rightarrow> nat" where
  "rune_width [] = 0"
| "rune_width (b0 # bs) =
     (let x = (of_char b0 :: nat) in
      if x < 0x80 then 1
      else if 0xC2 \<le> x \<and> x \<le> 0xDF then
        (case bs of b1 # _ \<Rightarrow> if byte_in b1 0x80 0xBF then 2 else 0 | _ \<Rightarrow> 0)
      else if 0xE0 \<le> x \<and> x \<le> 0xEF then
        (case bs of
           b1 # b2 # _ \<Rightarrow>
             if byte_in b1 (if x = 0xE0 then 0xA0 else 0x80) (if x = 0xED then 0x9F else 0xBF)
                \<and> byte_in b2 0x80 0xBF
             then 3 else 0
         | _ \<Rightarrow> 0)
      else if 0xF0 \<le> x \<and> x \<le> 0xF4 then
        (case bs of
           b1 # b2 # b3 # _ \<Rightarrow>
             if byte_in b1 (if x = 0xF0 then 0x90 else 0x80) (if x = 0xF4 then 0x8F else 0xBF)
                \<and> byte_in b2 0x80 0xBF \<and> byte_in b3 0x80 0xBF
             then 4 else 0
         | _ \<Rightarrow> 0)
      else 0)"

text \<open>The first argument counts the bytes of the current rune that are still to be copied.\<close>

fun coerce_utf8 :: "nat \<Rightarrow> string \<Rightarrow> string" where
  "coerce_utf8 _ [] = []"
| "coerce_utf8 (Suc k) (b # bs) = b # coerce_utf8 k bs"
| "coerce_utf8 0 (b # bs) =
     (case rune_width (b # bs) of
        0 \<Rightarrow> [CHR 0xEF, CHR 0xBF, CHR 0xBD] @ coerce_utf8 0 bs
      | Suc k \<Rightarrow> b # coerce_utf8 k bs)"

definition toValidUTF8 :: "string \<Rightarrow> string" where
  "toValidUTF8 s = coerce_utf8 0 s"

text \<open>The first error of a list of results, or all the values.\<close>

fun sequence :: "('e + 'a) list \<Rightarrow> 'e + 'a list" where
  "sequence [] = Inr []"
| "sequence (Inl e # _) = Inl e"
| "sequence (Inr x # rs) = (case sequence rs of Inl e \<Rightarrow> Inl e | Inr xs \<Rightarrow> Inr (x # xs))"

text \<open>
  \<^verbatim>\<open>json.Marshal\<close>: a nil interface, slice or map is \<^verbatim>\<open>null\<close>; a map is written with
  its keys sorted (as byte strings); NaN and the infinities are not supported.
\<close>

fun json_Marshal :: "'f float64_ops \<Rightarrow> 'f dyn \<Rightarrow> error + json" where
  "json_Marshal F DNil = Inr JNull"
| "json_Marshal F (DBool b) = Inr (JBool b)"
| "json_Marshal F (DInt i) = Inr (JNumber (FormatInt (sint i)))"
| "json_Marshal F (DInt32 i) = Inr (JNumber (FormatInt (sint i)))"
| "json_Marshal F (DInt64 i) = Inr (JNumber (FormatInt (sint i)))"
| "json_Marshal F (DFloat64 x) =
     (case f64_json F x of None \<Rightarrow> Inl UnsupportedValueError | Some s \<Rightarrow> Inr (JNumber s))"
| "json_Marshal F (DString s) = Inr (JString (toValidUTF8 s))"
| "json_Marshal F DNilSlice = Inr JNull"
| "json_Marshal F (DSlice vs) =
     (case sequence (map (json_Marshal F) vs) of Inl e \<Rightarrow> Inl e | Inr js \<Rightarrow> Inr (JArray js))"
| "json_Marshal F DNilMap = Inr JNull"
| "json_Marshal F (DMap kvs) =
     (case sequence (map (\<lambda>kv. case json_Marshal F (snd kv) of
                                  Inl e \<Rightarrow> Inl e
                                | Inr j \<Rightarrow> Inr (toValidUTF8 (fst kv), j))
                         (sort_key fst kvs)) of
        Inl e \<Rightarrow> Inl e
      | Inr js \<Rightarrow> Inr (JObject js))"

section \<open>Stats entries\<close>

text \<open>
  Modelled from the spec: the struct \<^verbatim>\<open>statsEntry\<close> is declared outside
  \<^verbatim>\<open>output.go\<close>. Its fields are the ones \<^verbatim>\<open>output.go\<close> reads, with the types and
  the JSON names the specification lists for a group-shaped object: \<^verbatim>\<open>name\<close>,
  \<^verbatim>\<open>method\<close>, \<^verbatim>\<open>num_requests\<close>, \<^verbatim>\<open>num_failures\<close>, \<^verbatim>\<open>total_response_time\<close>,
  \<^verbatim>\<open>min_response_time\<close>, \<^verbatim>\<open>max_response_time\<close>, \<^verbatim>\<open>num_reqs_per_sec\<close>,
  \<^verbatim>\<open>num_fail_per_sec\<close>, \<^verbatim>\<open>response_times\<close>, \<^verbatim>\<open>total_content_length\<close>.
\<close>

record statsEntry =
  Name :: string
  Method :: string
  NumRequests :: int64
  NumFailures :: int64
  TotalResponseTime :: int64
  MinResponseTime :: int64
  MaxResponseTime :: int64
  NumReqsPerSec :: gomap
  NumFailPerSec :: gomap
  ResponseTimes :: gomap
  TotalContentLength :: int64

text \<open>The zero value \<^verbatim>\<open>statsEntry{}\<close>.\<close>

definition statsEntry_zero :: statsEntry where
  "statsEntry_zero =
     \<lparr>Name = [], Method = [], NumRequests = 0, NumFailures = 0, TotalResponseTime = 0,
      MinResponseTime = 0, MaxResponseTime = 0, NumReqsPerSec = [], NumFailPerSec = [],
      ResponseTimes = [], TotalContentLength = 0\<rparr>"

definition field_names :: "string list" where
  "field_names =
     [''name'', ''method'', ''num_requests'', ''num_failures'', ''total_response_time'',
      ''min_response_time'', ''max_response_time'', ''num_reqs_per_sec'', ''num_fail_per_sec'',
      ''response_times'', ''total_content_length'']"

subsection \<open>\<^verbatim>\<open>json.Unmarshal\<close> into a stats entry\<close>

text \<open>
  An object key selects the field whose JSON name it equals, and otherwise the field
  whose name it equals up to case. The comparison up to case is Unicode's simple case
  folding; the only runes outside ASCII that fold to an ASCII letter are U+212A
  (Kelvin sign, to \<open>K\<close>) and U+017F (long s, to \<open>S\<close>), so \<open>foldName\<close> leaves every
  other rune as it is: the field names are ASCII.
\<close>

definition fold_byte :: "char \<Rightarrow> char" where
  "fold_byte c = (if byte_in c 97 122 then char_of ((of_char c :: nat) - 32) else c)"

fun foldName :: "string \<Rightarrow> string" where
  "foldName (a # b # c # cs) =
     (if a = CHR 0xE2 \<and> b = CHR 0x84 \<and> c = CHR 0xAA then CHR ''K'' # foldName cs
      else if a = CHR 0xC5 \<and> b = CHR 0xBF then CHR ''S'' # foldName (c # cs)
      else fold_byte a # foldName (b # c # cs))"
| "foldName [a, b] =
     (if a = CHR 0xC5 \<and> b = CHR 0xBF then [CHR ''S''] else [fold_byte a, fold_byte b])"
| "foldName [a] = [fold_byte a]"
| "foldName [] = []"

definition find_field :: "string \<Rightarrow> string option" where
  "find_field key =
     (if key \<in> set field_names then Some key
      else find (\<lambda>name. foldName name = foldName key) field_names)"

text \<open>
  The decoder keeps the first type error it meets and goes on; \<^verbatim>\<open>Unmarshal\<close> returns
  that error at the end. A decoding step takes and returns the saved error and the
  value being filled.
\<close>

definition saveError :: "error \<Rightarrow> error option \<Rightarrow> error option" where
  "saveError e saved = (case saved of None \<Rightarrow> Some e | Some e0 \<Rightarrow> Some e0)"

fun json_kind :: "json \<Rightarrow> string" where
  "json_kind JNull = ''null''"
| "json_kind (JBool _) = ''bool''"
| "json_kind (JNumber _) = ''number''"
| "json_kind (JString _) = ''string''"
| "json_kind (JArray _) = ''array''"
| "json_kind (JObject _) = ''object''"

text \<open>Into a \<^verbatim>\<open>string\<close>: a JSON string is stored, \<^verbatim>\<open>null\<close> changes nothing.\<close>

fun decode_string :: "json \<Rightarrow> error option \<times> string \<Rightarrow> error option \<times> string" where
  "decode_string JNull (saved, cur) = (saved, cur)"
| "decode_string (JString s) (saved, cur) = (saved, s)"
| "decode_string j (saved, cur) = (saveError (UnmarshalTypeError (json_kind j) ''string'') saved, cur)"

text \<open>Into an \<^verbatim>\<open>int64\<close>: a number whose literal \<^verbatim>\<open>ParseInt\<close> accepts is stored.\<close>

fun decode_int64 :: "json \<Rightarrow> error option \<times> int64 \<Rightarrow> error option \<times> int64" where
  "decode_int64 JNull (saved, cur) = (saved, cur)"
| "decode_int64 (JNumber s) (saved, cur) =
     (case ParseInt s of
        Some n \<Rightarrow> (saved, n)
      | None \<Rightarrow> (saveError (UnmarshalTypeError (''number '' @ s) ''int64'') saved, cur))"
| "decode_int64 j (saved, cur) = (saveError (UnmarshalTypeError (json_kind j) ''int64'') saved, cur)"

text \<open>
  Into a \<^verbatim>\<open>map[int64]int64\<close>: an object adds its members to the map (the value is
  decoded into a fresh element, then the key is parsed; a key that does not parse is
  an error and its member is left out), \<^verbatim>\<open>null\<close> sets the map to nil.
\<close>

fun decode_map_entry :: "string \<times> json \<Rightarrow> error option \<times> gomap \<Rightarrow> error option \<times> gomap" where
  "decode_map_entry (key, j) (saved, m) =
     (case decode_int64 j (saved, 0) of
        (saved', elem) \<Rightarrow>
          (case ParseInt key of
             Some k \<Rightarrow> (saved', AList.update k elem m)
           | None \<Rightarrow> (saveError (UnmarshalTypeError (''number '' @ key) ''int64'') saved', m)))"

fun decode_map :: "json \<Rightarrow> error option \<times> gomap \<Rightarrow> error option \<times> gomap" where
  "decode_map JNull (saved, cur) = (saved, [])"
| "decode_map (JObject kvs) (saved, cur) = fold decode_map_entry kvs (saved, cur)"
| "decode_map j (saved, cur) =
     (saveError (UnmarshalTypeError (json_kind j) ''map[int64]int64'') saved, cur)"

definition set_string ::
  "(statsEntry \<Rightarrow> string) \<Rightarrow> (string \<Rightarrow> statsEntry \<Rightarrow> statsEntry) \<Rightarrow> json
     \<Rightarrow> error option \<times> statsEntry \<Rightarrow> error option \<times> statsEntry" where
  "set_string get upd j st =
     (case decode_string j (fst st, get (snd st)) of (saved, v) \<Rightarrow> (saved, upd v (snd st)))"

definition set_int64 ::
  "(statsEntry \<Rightarrow> int64) \<Rightarrow> (int64 \<Rightarrow> statsEntry \<Rightarrow> statsEntry) \<Rightarrow> json
     \<Rightarrow> error option \<times> statsEntry \<Rightarrow> error option \<times> statsEntry" where
  "set_int64 get upd j st =
     (case decode_int64 j (fst st, get (snd st)) of (saved, v) \<Rightarrow> (saved, upd v (snd st)))"

definition set_map ::
  "(statsEntry \<Rightarrow> gomap) \<Rightarrow> (gomap \<Rightarrow> statsEntry \<Rightarrow> statsEntry) \<Rightarrow> json
     \<Rightarrow> error option \<times> statsEntry \<Rightarrow> error option \<times> statsEntry" where
  "set_map get upd j st =
     (case decode_map j (fst st, get (snd st)) of (saved, v) \<Rightarrow> (saved, upd v (snd st)))"

text \<open>One member of the object: a key that selects no field is skipped.\<close>

definition decode_field ::
  "string \<times> json \<Rightarrow> error option \<times> statsEntry \<Rightarrow> error option \<times> statsEntry" where
  "decode_field kv st =
     (case find_field (fst kv) of
        None \<Rightarrow> st
      | Some f \<Rightarrow>
          if f = ''name'' then set_string Name (\<lambda>v e. e\<lparr>Name := v\<rparr>) (snd kv) st
          else if f = ''method'' then set_string Method (\<lambda>v e. e\<lparr>Method := v\<rparr>) (snd kv) st
          else if f = ''num_requests'' then
            set_int64 NumRequests (\<lambda>v e. e\<lparr>NumRequests := v\<rparr>) (snd kv) st
          else if f = ''num_failures'' then
            set_int64 NumFailures (\<lambda>v e. e\<lparr>NumFailures := v\<rparr>) (snd kv) st
          else if f = ''total_response_time'' then
            set_int64 TotalResponseTime (\<lambda>v e. e\<lparr>TotalResponseTime := v\<rparr>) (snd kv) st
          else if f = ''min_response_time'' then
            set_int64 MinResponseTime (\<lambda>v e. e\<lparr>MinResponseTime := v\<rparr>) (snd kv) st
          else if f = ''max_response_time'' then
            set_int64 MaxResponseTime (\<lambda>v e. e\<lparr>MaxResponseTime := v\<rparr>) (snd kv) st
          else if f = ''num_reqs_per_sec'' then
            set_map NumReqsPerSec (\<lambda>v e. e\<lparr>NumReqsPerSec := v\<rparr>) (snd kv) st
          else if f = ''num_fail_per_sec'' then
            set_map NumFailPerSec (\<lambda>v e. e\<lparr>NumFailPerSec := v\<rparr>) (snd kv) st
          else if f = ''response_times'' then
            set_map ResponseTimes (\<lambda>v e. e\<lparr>ResponseTimes := v\<rparr>) (snd kv) st
          else set_int64 TotalContentLength (\<lambda>v e. e\<lparr>TotalContentLength := v\<rparr>) (snd kv) st)"

text \<open>
  \<^verbatim>\<open>json.Unmarshal(statBytes, &entry)\<close>: \<^verbatim>\<open>null\<close> leaves the entry as it is and is no
  error; an object fills the fields its keys select and leaves the others; any other
  JSON value is a type error.
\<close>

definition json_Unmarshal :: "json \<Rightarrow> statsEntry \<Rightarrow> error + statsEntry" where
  "json_Unmarshal j entry =
     (case j of
        JNull \<Rightarrow> Inr entry
      | JObject kvs \<Rightarrow>
          (case fold decode_field kvs (None, entry) of
             (None, e) \<Rightarrow> Inr e
           | (Some err, e) \<Rightarrow> Inl err)
      | _ \<Rightarrow> Inl (UnmarshalTypeError (json_kind j) ''boomer.statsEntry''))"

section \<open>The snapshot decoder\<close>

record 'f statsEntryOutput =
  statsEntry :: statsEntry
  medianResponseTime :: int64
  avgResponseTime :: 'f
  avgContentLength :: int64
  currentRps :: int64
  currentFailPerSec :: int64

record 'f dataOutput =
  UserCount :: int32
  TotalStats :: "'f statsEntryOutput"
  TotalRPS :: int64
  TotalFailRatio :: 'f
  Stats :: "'f statsEntryOutput list"
  Errors :: "(string \<times> (string \<times> 'f dyn) list) list"

definition deserializeStatsEntry :: "'f float64_ops \<Rightarrow> 'f dyn \<Rightarrow> error + 'f statsEntryOutput" where
  "deserializeStatsEntry F stat =
     (case json_Marshal F stat of
        Inl err \<Rightarrow> Inl err
      | Inr statBytes \<Rightarrow>
          (case json_Unmarshal statBytes statsEntry_zero of
             Inl err \<Rightarrow> Inl err
           | Inr entry \<Rightarrow>
               (let numRequests = NumRequests entry
                in Inr \<lparr>statsEntry = entry,
                        medianResponseTime = getMedianResponseTime numRequests (ResponseTimes entry),
                        avgResponseTime = getAvgResponseTime F numRequests (TotalResponseTime entry),
                        avgContentLength = getAvgContentLength numRequests (TotalContentLength entry),
                        currentRps = getCurrentRps numRequests (NumReqsPerSec entry),
                        currentFailPerSec =
                          getCurrentFailPerSec (NumFailures entry) (NumFailPerSec entry)\<rparr>)))"

text \<open>
  The loop over \<^verbatim>\<open>stats\<close> in \<^verbatim>\<open>convertData\<close>: the first entry that does not
  deserialize ends the function with its error, the others are appended to
  \<^verbatim>\<open>output.Stats\<close>.
\<close>

fun convert_stats ::
  "'f float64_ops \<Rightarrow> 'f dyn list \<Rightarrow> 'f dataOutput \<Rightarrow> error + 'f dataOutput" where
  "convert_stats F [] output = Inr output"
| "convert_stats F (stat # rest) output =
     (case deserializeStatsEntry F stat of
        Inl err \<Rightarrow> Inl err
      | Inr entryOutput \<Rightarrow>
          convert_stats F rest (output\<lparr>Stats := Stats output @ [entryOutput]\<rparr>))"

definition convertData :: "'f float64_ops \<Rightarrow> (string \<rightharpoonup> 'f dyn) \<Rightarrow> error + 'f dataOutput" where
  "convertData F data =
     (case assert_int32 (map_index data ''user_count'') of
        None \<Rightarrow> Inl (Errorf ''user_count is not int32'')
      | Some userCount \<Rightarrow>
          (case assert_slice (map_index data ''stats'') of
             None \<Rightarrow> Inl (Errorf ''stats is not []interface{}'')
           | Some stats \<Rightarrow>
               (let statsTotal = map_index data ''stats_total''
                in case deserializeStatsEntry F statsTotal of
                     Inl err \<Rightarrow> Inl err
                   | Inr entryTotalOutput \<Rightarrow>
                       convert_stats F stats
                         \<lparr>UserCount = userCount,
                          TotalStats = entryTotalOutput,
                          TotalRPS =
                            getCurrentRps (NumRequests (statsEntry entryTotalOutput))
                              (NumReqsPerSec (statsEntry entryTotalOutput)),
                          TotalFailRatio =
                            getTotalFailRatio F (NumRequests (statsEntry entryTotalOutput))
                              (NumFailures (statsEntry entryTotalOutput)),
                          Stats = [],
                          Errors = []\<rparr>)))"

section \<open>The sinks\<close>

text \<open>
  What a sink leaves behind. The console sink writes log lines and the rendered table
  to its logger's writer; the push sink also writes to the process-wide gauges and
  calls the pusher. A log line is kept as its format's arguments, the table as its
  header and rows; an instant (\<^verbatim>\<open>time.Time\<close>) is a number.
\<close>

type_synonym Time = int

datatype 'f output_item =
    Log_convert_error error  \<comment> \<open>\<^verbatim>\<open>Printf("convert data error: %v\n", err)\<close>\<close>
  | Log_summary Time int32 int64 'f  \<comment> \<open>the line with the time, users, total RPS and fail ratio\<close>
  | Table_render "string list" "string list list"  \<comment> \<open>\<^verbatim>\<open>table.Render()\<close>: header and rows\<close>
  | Log_empty  \<comment> \<open>\<^verbatim>\<open>Println()\<close>\<close>
  | Log_push_error error  \<comment> \<open>\<^verbatim>\<open>Printf("Could not push to Pushgateway: error: %v\n", err)\<close>\<close>

record table =
  header :: "string list"
  rows :: "string list list"

definition table_Append :: "string list \<Rightarrow> table \<Rightarrow> table" where
  "table_Append row t = t\<lparr>rows := rows t @ [row]\<rparr>"

text \<open>The body of the loop of \<^verbatim>\<open>ConsoleOutput.OnEvent\<close>: the row of one entry.\<close>

definition make_row :: "'f float64_ops \<Rightarrow> 'f statsEntryOutput \<Rightarrow> string list" where
  "make_row F stat =
     [Method (statsEntry stat),
      Name (statsEntry stat),
      FormatInt (sint (NumRequests (statsEntry stat))),
      FormatInt (sint (NumFailures (statsEntry stat))),
      FormatInt (sint (medianResponseTime stat)),
      FormatFloat F (avgResponseTime stat),
      FormatInt (sint (MinResponseTime (statsEntry stat))),
      FormatInt (sint (MaxResponseTime (statsEntry stat))),
      FormatInt (sint (avgContentLength stat)),
      FormatInt (sint (currentRps stat)),
      FormatInt (sint (currentFailPerSec stat))]"

definition table_header :: "string list" where
  "table_header =
     [''Type'', ''Name'', ''# requests'', ''# fails'', ''Median'', ''Average'', ''Min'', ''Max'',
      ''Content Size'', ''# reqs/sec'', ''# fails/sec'']"

text \<open>
  \<^verbatim>\<open>ConsoleOutput.OnEvent\<close>, as a function of the current time, the event and what
  the logger has written so far; the result is what it has written afterwards.
\<close>

definition ConsoleOutput_OnEvent ::
  "'f float64_ops \<Rightarrow> Time \<Rightarrow> (string \<rightharpoonup> 'f dyn) \<Rightarrow> 'f output_item list \<Rightarrow> 'f output_item list" where
  "ConsoleOutput_OnEvent F currentTime data logger =
     (case convertData F data of
        Inl err \<Rightarrow> logger @ [Log_convert_error err]
      | Inr output \<Rightarrow>
          (let line = Log_summary currentTime (UserCount output) (TotalRPS output)
                        (f64_mul F (TotalFailRatio output) (f64_of_int64 F 100));
               table = fold (\<lambda>stat t. table_Append (make_row F stat) t) (Stats output)
                         \<lparr>header = table_header, rows = []\<rparr>
           in logger @ [line, Table_render (header table) (rows table), Log_empty]))"

text \<open>
  The gauges are process-wide: a value for each metric name and list of label values.
\<close>

type_synonym 'f gauges = "string \<times> string list \<rightharpoonup> 'f"

definition gauge_Set :: "string \<Rightarrow> string list \<Rightarrow> 'f \<Rightarrow> 'f gauges \<Rightarrow> 'f gauges" where
  "gauge_Set name labels v g = g((name, labels) \<mapsto> v)"

text \<open>The body of the loop of \<^verbatim>\<open>PrometheusPusherOutput.OnEvent\<close>.\<close>

definition set_stat_gauges :: "'f float64_ops \<Rightarrow> 'f statsEntryOutput \<Rightarrow> 'f gauges \<Rightarrow> 'f gauges" where
  "set_stat_gauges F stat g =
     (let method = Method (statsEntry stat);
          name = Name (statsEntry stat)
      in fold (\<lambda>(metric, v). gauge_Set metric [method, name] v)
           [(''boomer_num_requests'', f64_of_int64 F (NumRequests (statsEntry stat))),
            (''boomer_num_failures'', f64_of_int64 F (NumFailures (statsEntry stat))),
            (''boomer_median_response_time'', f64_of_int64 F (medianResponseTime stat)),
            (''boomer_average_response_time'', avgResponseTime stat),
            (''boomer_min_response_time'', f64_of_int64 F (MinResponseTime (statsEntry stat))),
            (''boomer_max_response_time'', f64_of_int64 F (MaxResponseTime (statsEntry stat))),
            (''boomer_average_content_length'', f64_of_int64 F (avgContentLength stat)),
            (''boomer_current_rps'', f64_of_int64 F (currentRps stat)),
            (''boomer_current_fail_per_sec'', f64_of_int64 F (currentFailPerSec stat))]
           g)"

text \<open>
  The state the push sink acts on: the gauges, the calls of \<^verbatim>\<open>pusher.Push()\<close> so far
  (each with the gauge values it was given) and what the logger has written.
\<close>

record 'f pusher_state =
  gauges :: "'f gauges"
  pushes :: "'f gauges list"
  logged :: "'f output_item list"

text \<open>
  \<^verbatim>\<open>PrometheusPusherOutput.OnEvent\<close>; \<open>pushResult\<close> is what \<^verbatim>\<open>pusher.Push()\<close>
  returns on this tick (\<open>None\<close> is \<^verbatim>\<open>nil\<close>).
\<close>

definition PrometheusPusherOutput_OnEvent ::
  "'f float64_ops \<Rightarrow> error option \<Rightarrow> (string \<rightharpoonup> 'f dyn) \<Rightarrow> 'f pusher_state \<Rightarrow> 'f pusher_state" where
  "PrometheusPusherOutput_OnEvent F pushResult data s =
     (case convertData F data of
        Inl err \<Rightarrow> s\<lparr>logged := logged s @ [Log_convert_error err]\<rparr>
      | Inr output \<Rightarrow>
          (let g1 = gauge_Set ''boomer_users'' [] (f64_of_int32 F (UserCount output)) (gauges s);
               g2 = gauge_Set ''boomer_total_rps'' [] (f64_of_int64 F (TotalRPS output)) g1;
               g3 = gauge_Set ''boomer_fail_ratio'' [] (TotalFailRatio output) g2;
               g4 = fold (set_stat_gauges F) (Stats output) g3
           in s\<lparr>gauges := g4,
                pushes := pushes s @ [g4],
                logged := (case pushResult of
                             None \<Rightarrow> logged s
                           | Some err \<Rightarrow> logged s @ [Log_push_error err])\<rparr>))"

section \<open>Definitions used to state the properties\<close>

text \<open>
  The median as the specification words it: walk the buckets (pairs of key and count)
  in the given order with a running position, and return the first key whose count
  exceeds the position that remains; \<open>0\<close> when no bucket does.
\<close>

fun median_walk :: "int64 \<Rightarrow> (int64 \<times> int64) list \<Rightarrow> int64" where
  "median_walk pos [] = 0"
| "median_walk pos ((k, c) # buckets) =
     (if sint pos < sint c then k else median_walk (pos - c) buckets)"

text \<open>The buckets of a histogram in ascending order of their keys.\<close>

definition ascending :: "gomap \<Rightarrow> (int64 \<times> int64) list" where
  "ascending m = sort_key (\<lambda>b. sint (fst b)) m"

text \<open>
  Two lists that hold the same map: the same keys with the same counts, visited in
  possibly different orders.
\<close>

definition same_map :: "gomap \<Rightarrow> gomap \<Rightarrow> bool" where
  "same_map m m' = (wf_gomap m \<and> wf_gomap m' \<and> set m = set m')"

text \<open>
  The JSON values a field of a stats entry takes without a type error, by the field's
  JSON name: \<^verbatim>\<open>null\<close> for every field; a string for the two string fields; a number
  that \<^verbatim>\<open>ParseInt\<close> reads for the integer fields; for the three maps an object whose
  keys \<^verbatim>\<open>ParseInt\<close> reads and whose values an integer field would take.
\<close>

definition int64_value :: "json \<Rightarrow> bool" where
  "int64_value j = (case j of JNull \<Rightarrow> True | JNumber s \<Rightarrow> ParseInt s \<noteq> None | _ \<Rightarrow> False)"

definition string_value :: "json \<Rightarrow> bool" where
  "string_value j = (case j of JNull \<Rightarrow> True | JString s \<Rightarrow> True | _ \<Rightarrow> False)"

definition map_value :: "json \<Rightarrow> bool" where
  "map_value j =
     (case j of
        JNull \<Rightarrow> True
      | JObject kvs \<Rightarrow> list_all (\<lambda>kv. ParseInt (fst kv) \<noteq> None \<and> int64_value (snd kv)) kvs
      | _ \<Rightarrow> False)"

definition accepts :: "string \<Rightarrow> json \<Rightarrow> bool" where
  "accepts f j =
     (if f \<in> {''name'', ''method''} then string_value j
      else if f \<in> {''num_reqs_per_sec'', ''num_fail_per_sec'', ''response_times''} then map_value j
      else int64_value j)"

text \<open>
  The JSON texts that \<^verbatim>\<open>Unmarshal\<close> stores in a stats entry without an error:
  \<^verbatim>\<open>null\<close>, and an object each of whose members either selects no field or holds a
  value the selected field takes. The values that \<^verbatim>\<open>deserializeStatsEntry\<close> transcodes
  are those that \<^verbatim>\<open>Marshal\<close> turns into such a text.
\<close>

definition json_shape_ok :: "json \<Rightarrow> bool" where
  "json_shape_ok j =
     (case j of
        JNull \<Rightarrow> True
      | JObject kvs \<Rightarrow>
          list_all (\<lambda>kv. case find_field (fst kv) of None \<Rightarrow> True | Some f \<Rightarrow> accepts f (snd kv)) kvs
      | _ \<Rightarrow> False)"

definition transcodes :: "'f float64_ops \<Rightarrow> 'f dyn \<Rightarrow> bool" where
  "transcodes F v = (case json_Marshal F v of Inl e \<Rightarrow> False | Inr j \<Rightarrow> json_shape_ok j)"

text \<open>The output record of the zero entry.\<close>

definition zero_output :: "'f float64_ops \<Rightarrow> 'f statsEntryOutput" where
  "zero_output F =
     \<lparr>statsEntry = statsEntry_zero, medianResponseTime = 0, avgResponseTime = f64_zero F,
      avgContentLength = 0, currentRps = 0, currentFailPerSec = 0\<rparr>"

text \<open>
  An interpretation of the \<^verbatim>\<open>float64\<close> operations by exact rational arithmetic. It
  serves to evaluate the functions at concrete events; the theorems are proved for
  every interpretation.
\<close>

definition round_half_even :: "rat \<Rightarrow> int" where
  "round_half_even x =
     (let fl = \<lfloor>x\<rfloor>; fr = x - of_int fl
      in if fr < 1 / 2 then fl else if 1 / 2 < fr then fl + 1
         else if even fl then fl else fl + 1)"

definition format_2 :: "rat \<Rightarrow> string" where
  "format_2 x =
     (let r = nat (round_half_even (\<bar>x\<bar> * 100))
      in (if x < 0 then ''-'' else []) @ nat_digits (r div 100) @ ''.''
         @ [digit_char (r mod 100 div 10), digit_char (r mod 10)])"

definition exact_ops :: "rat float64_ops" where
  "exact_ops =
     \<lparr>f64_zero = 0,
      f64_of_int64 = (\<lambda>x. of_int (sint x)),
      f64_of_int32 = (\<lambda>x. of_int (sint x)),
      f64_div = (\<lambda>x y. x / y),
      f64_mul = (\<lambda>x y. x * y),
      FormatFloat = format_2,
      f64_json = (\<lambda>x. Some (if of_int \<lfloor>x\<rfloor> = x then FormatInt \<lfloor>x\<rfloor> else format_2 x))\<rparr>"

text \<open>
  Two per-group objects as a runner sends them, and the entries they decode to: the first
  holds a request count and a name, the second a name and a failure count that went
  through a generic JSON decoder (a \<^verbatim>\<open>float64\<close>). Each lacks the other fields.
\<close>

definition group_a :: "rat dyn" where
  "group_a = DMap [(''num_requests'', DInt64 6), (''name'', DString ''/a'')]"

definition group_b :: "rat dyn" where
  "group_b = DMap [(''name'', DString ''/b''), (''num_failures'', DFloat64 2)]"

text \<open>A third object, whose request count is a string.\<close>

definition group_mistyped :: "rat dyn" where
  "group_mistyped = DMap [(''name'', DString ''/a''), (''num_requests'', DString ''6'')]"

definition entry_a :: "rat statsEntryOutput" where
  "entry_a =
     \<lparr>statsEntry = statsEntry_zero\<lparr>Name := ''/a'', NumRequests := 6\<rparr>,
      medianResponseTime = 0, avgResponseTime = 0, avgContentLength = 0, currentRps = 0,
      currentFailPerSec = 0\<rparr>"

definition entry_b :: "rat statsEntryOutput" where
  "entry_b =
     \<lparr>statsEntry = statsEntry_zero\<lparr>Name := ''/b'', NumFailures := 2\<rparr>,
      medianResponseTime = 0, avgResponseTime = 0, avgContentLength = 0, currentRps = 0,
      currentFailPerSec = 0\<rparr>"

section \<open>Properties of the median\<close>

lemma map_insort_key:
  "map f (insort_key (\<lambda>x. g (f x)) x ys) = insort_key g (f x) (map f ys)"
  by (induction ys) simp_all

lemma map_sort_key:
  "map f (sort_key (\<lambda>x. g (f x)) xs) = sort_key g (map f xs)"
  by (induction xs) (simp_all add: map_insort_key)

lemma index_member:
  "distinct (map fst m) \<Longrightarrow> (k, c) \<in> set m \<Longrightarrow> index m k = c"
  by (simp add: index_def)

lemma median_loop_walk:
  "distinct (map fst m) \<Longrightarrow> set bs \<subseteq> set m \<Longrightarrow>
   median_loop m (map fst bs) pos = median_walk pos bs"
proof (induction bs arbitrary: pos)
  case Nil
  then show ?case by simp
next
  case (Cons b bs)
  obtain k c where b: "b = (k, c)" by (cases b)
  with Cons.prems have "index m k = c" by (auto intro: index_member)
  with Cons b show ?case by (simp add: word_sless_alt)
qed

lemma getMedian_walk:
  assumes "wf_gomap m"
  shows "getMedianResponseTime n m = median_walk (int64_div (n - 1) 2) (ascending m)"
proof -
  have "median_loop m (map fst (ascending m)) pos = median_walk pos (ascending m)" for pos
    using assms by (intro median_loop_walk) (simp_all add: wf_gomap_def ascending_def)
  then show ?thesis
    by (cases "m = []") (simp_all add: getMedianResponseTime_def sort_Slice_def range_keys_def map_sort_key Let_def ascending_def)
qed

lemma sint_diff_in_range:
  fixes a b :: int64
  assumes "0 \<le> sint b" "sint b \<le> sint a"
  shows "sint (a - b) = sint a - sint b"
proof -
  have "sint a < 2 ^ 63" using sint_lt [of a] by simp
  with assms have "- (2 ^ 63) \<le> sint a - sint b" "sint a - sint b < 2 ^ 63" by simp_all
  then show ?thesis
    by (simp add: sint_word_ariths signed_take_bit_int_eq_self)
qed

lemma median_walk_undercount:
  "(\<forall>b \<in> set bs. 0 \<le> sint (snd b)) \<Longrightarrow> (\<Sum>b\<leftarrow>bs. sint (snd b)) \<le> sint pos \<Longrightarrow>
   median_walk pos bs = 0"
proof (induction bs arbitrary: pos)
  case Nil
  then show ?case by simp
next
  case (Cons b bs)
  obtain k c where b: "b = (k, c)" by (cases b)
  have rest: "0 \<le> (\<Sum>b\<leftarrow>bs. sint (snd b))"
    using Cons.prems(1) by (intro sum_list_nonneg) auto
  have c: "0 \<le> sint c" using Cons.prems(1) b by simp
  have le: "sint c \<le> sint pos" using Cons.prems(2) rest b by simp
  have "sint (pos - c) = sint pos - sint c" using c le by (rule sint_diff_in_range)
  with Cons.prems b have "(\<Sum>b\<leftarrow>bs. sint (snd b)) \<le> sint (pos - c)" by simp
  with Cons.IH Cons.prems(1) have "median_walk (pos - c) bs = 0" by simp
  with le b show ?case by simp
qed

lemma sum_insort: "(\<Sum>b\<leftarrow>insort_key f x bs. (g b :: int)) = g x + (\<Sum>b\<leftarrow>bs. g b)"
  by (induction bs) simp_all

lemma sum_sort: "(\<Sum>b\<leftarrow>sort_key f bs. (g b :: int)) = (\<Sum>b\<leftarrow>bs. g b)"
  by (induction bs) (simp_all add: sum_insort)

lemma pos_value:
  "sint n \<noteq> - (2 ^ 63) \<Longrightarrow> sint (int64_div (n - 1) 2) = (sint n - 1) sdiv 2"
proof -
  assume n: "sint n \<noteq> - (2 ^ 63)"
  have "- (2 ^ 63) \<le> sint n" "sint n < 2 ^ 63" using sint_ge [of n] sint_lt [of n] by simp_all
  with n have r: "- (2 ^ 63) \<le> sint n - 1" "sint n - 1 < 2 ^ 63" by simp_all
  then have s: "sint (n - 1) = sint n - 1"
    by (simp add: sint_word_ariths signed_take_bit_int_eq_self)
  have "- (2 ^ 63) \<le> (sint n - 1) sdiv 2" "(sint n - 1) sdiv 2 < 2 ^ 63"
    using r by (auto simp add: signed_divide_int_def sgn_if)
  then show ?thesis
    by (simp add: int64_div_def s sint_sbintrunc' signed_take_bit_int_eq_self)
qed


lemma median_example_1: "getMedianResponseTime 6 [(100, 3), (200, 2), (300, 1)] = 100"
  by (simp add: getMedianResponseTime_def int64_div_def sort_Slice_def range_keys_def index_def
      word_sless_alt signed_divide_int_def)

lemma median_example_2: "getMedianResponseTime 6 [(100, 1), (200, 1), (300, 4)] = 300"
  by (simp add: getMedianResponseTime_def int64_div_def sort_Slice_def range_keys_def index_def
      word_sless_alt signed_divide_int_def)

text \<open>
  C1: for a histogram (a map, so with distinct keys) \<^verbatim>\<open>getMedianResponseTime\<close> returns
  what the walk over the buckets in ascending key order returns when the position starts
  at \<open>(numRequests - 1) / 2\<close>, the quotient truncated as Go's integer division does:
  the first key whose count exceeds the remaining position, and \<open>0\<close> when there is
  none. It returns \<open>0\<close> for the empty histogram, and for one with counts that are
  not negative and sum to at most the starting position. The two histograms of the
  specification give \<open>100\<close> and \<open>300\<close>.
\<close>

theorem C1_median_walk:
  assumes "wf_gomap responseTimes"
  shows "getMedianResponseTime numRequests responseTimes =
           median_walk (int64_div (numRequests - 1) 2) (ascending responseTimes)
         \<and> (sint numRequests \<noteq> - (2 ^ 63) \<longrightarrow>
              sint (int64_div (numRequests - 1) 2) = (sint numRequests - 1) sdiv 2)
         \<and> (responseTimes = [] \<longrightarrow> getMedianResponseTime numRequests responseTimes = 0)
         \<and> ((\<forall>b \<in> set responseTimes. 0 \<le> sint (snd b))
              \<and> (\<Sum>b\<leftarrow>responseTimes. sint (snd b)) \<le> sint (int64_div (numRequests - 1) 2) \<longrightarrow>
              getMedianResponseTime numRequests responseTimes = 0)
         \<and> getMedianResponseTime 6 [(100, 3), (200, 2), (300, 1)] = 100
         \<and> getMedianResponseTime 6 [(100, 1), (200, 1), (300, 4)] = 300"
proof -
  let ?pos = "int64_div (numRequests - 1) 2"
  have walk: "getMedianResponseTime numRequests responseTimes = median_walk ?pos (ascending responseTimes)"
    using assms by (rule getMedian_walk)
  have empty: "responseTimes = [] \<longrightarrow> getMedianResponseTime numRequests responseTimes = 0"
    by (simp add: getMedianResponseTime_def)
  have under: "getMedianResponseTime numRequests responseTimes = 0"
    if "\<forall>b \<in> set responseTimes. 0 \<le> sint (snd b)"
      and "(\<Sum>b\<leftarrow>responseTimes. sint (snd b)) \<le> sint ?pos"
  proof -
    have "median_walk ?pos (ascending responseTimes) = 0"
      using that by (intro median_walk_undercount) (simp_all add: ascending_def sum_sort)
    with walk show ?thesis by simp
  qed
  from walk empty under pos_value [of numRequests] median_example_1 median_example_2
  show ?thesis by blast
qed

theorem C1_median_walk_witness:
  "wf_gomap [(300, 1), (100, 3), (200, 2)]
   \<and> getMedianResponseTime 6 [(300, 1), (100, 3), (200, 2)] = median_walk 2 [(100, 3), (200, 2), (300, 1)]
   \<and> median_walk 2 [(100, 3), (200, 2), (300, 1)] = 100
   \<and> sint (6 :: int64) \<noteq> - (2 ^ 63) \<and> sint (int64_div (6 - 1) 2) = 2
   \<and> wf_gomap [(200, 1), (100, 1)]
   \<and> list_all (\<lambda>b. 0 \<le> sint (snd b)) [(200 :: int64, 1 :: int64), (100, 1)]
   \<and> (\<Sum>b\<leftarrow>[(200 :: int64, 1 :: int64), (100, 1)]. sint (snd b)) \<le> sint (int64_div (6 - 1) 2)
   \<and> getMedianResponseTime 6 [(200, 1), (100, 1)] = 0
   \<and> wf_gomap [] \<and> getMedianResponseTime 6 [] = 0"
proof -
  have pos: "int64_div 5 2 = 2"
    by (simp add: int64_div_def signed_divide_int_def)
  have w1: "wf_gomap [(300, 1), (100, 3), (200, 2)]" and w2: "wf_gomap [(200, 1), (100, 1)]"
    and w3: "wf_gomap []"
    by (simp_all add: wf_gomap_def)
  have asc: "ascending [(300, 1), (100, 3), (200, 2)] = [(100, 3), (200, 2), (300, 1)]"
    by (simp add: ascending_def)
  show ?thesis
    using C1_median_walk [OF w1, of 6] C1_median_walk [OF w2, of 6] C1_median_walk [OF w3, of 6]
    by (simp add: pos asc w1 w2 w3 ascending_def)
qed

section \<open>Properties of the averages, the rates and the failure ratio\<close>

lemma sdiv_bounds:
  fixes a b :: int
  assumes a: "- (2 ^ 63) \<le> a" "a < 2 ^ 63" and b: "b \<noteq> 0" and nov: "\<not> (a = - (2 ^ 63) \<and> b = - 1)"
  shows "- (2 ^ 63) \<le> a sdiv b \<and> a sdiv b < 2 ^ 63"
proof (cases "\<bar>b\<bar> = 1")
  case True
  then have "b = 1 \<or> b = - 1" by auto
  then show ?thesis using a nov by (auto simp add: signed_divide_int_def sgn_if)
next
  case False
  define q where "q = \<bar>a\<bar> div \<bar>b\<bar>"
  have abs: "\<bar>a\<bar> \<le> 2 ^ 63" using a by simp
  from False b have "2 \<le> \<bar>b\<bar>" by simp
  then have "q \<le> \<bar>a\<bar> div 2"
    unfolding q_def by (simp add: zdiv_mono2)
  also have "\<dots> \<le> 2 ^ 62" using abs by simp
  finally have up: "q \<le> 2 ^ 62" .
  have lo: "0 \<le> q" unfolding q_def using b by (intro pos_imp_zdiv_nonneg_iff [THEN iffD2]) simp_all
  have "a sdiv b = sgn a * sgn b * q" by (simp add: signed_divide_int_def q_def)
  then have "a sdiv b = q \<or> a sdiv b = - q \<or> a sdiv b = 0"
    by (auto simp add: sgn_if)
  with up lo show ?thesis by auto
qed

lemma sint_int64_div:
  assumes "n \<noteq> 0" and "\<not> (sint t = - (2 ^ 63) \<and> sint n = - 1)"
  shows "sint (int64_div t n) = sint t sdiv sint n"
proof -
  have "sint n \<noteq> 0" using assms(1) by (simp add: signed_eq_0_iff)
  moreover have "- (2 ^ 63) \<le> sint t" "sint t < 2 ^ 63" using sint_ge [of t] sint_lt [of t] by simp_all
  ultimately have "- (2 ^ 63) \<le> sint t sdiv sint n \<and> sint t sdiv sint n < 2 ^ 63"
    using assms(2) by (intro sdiv_bounds) simp_all
  then show ?thesis
    by (simp add: int64_div_def sint_sbintrunc' signed_take_bit_int_eq_self)
qed

text \<open>
  C3: with a request count of zero the average response time and the failure ratio are
  the \<^verbatim>\<open>float64\<close> zero and the average content length is \<open>0\<close>. With any other
  count the two floats are the quotient of the converted arguments, and the average
  content length is Go's integer quotient: the truncated quotient of the two values,
  but for the most negative total divided by \<open>-1\<close>, which wraps.
\<close>

theorem C3_zero_guards:
  "getAvgResponseTime F 0 t = f64_zero F
   \<and> getAvgContentLength 0 t = 0
   \<and> getTotalFailRatio F 0 f = f64_zero F
   \<and> (n \<noteq> 0 \<longrightarrow>
        getAvgResponseTime F n t = f64_div F (f64_of_int64 F t) (f64_of_int64 F n)
        \<and> getAvgContentLength n t = int64_div t n
        \<and> (\<not> (sint t = - (2 ^ 63) \<and> sint n = - 1) \<longrightarrow>
             sint (getAvgContentLength n t) = sint t sdiv sint n)
        \<and> getTotalFailRatio F n f = f64_div F (f64_of_int64 F f) (f64_of_int64 F n))"
  using sint_int64_div [of n t]
  by (simp add: getAvgResponseTime_def getAvgContentLength_def getTotalFailRatio_def)

theorem C3_zero_guards_witness:
  "getAvgResponseTime exact_ops 0 10 = 0
   \<and> getAvgContentLength 0 10 = 0
   \<and> getTotalFailRatio exact_ops 0 1 = 0
   \<and> (4 :: int64) \<noteq> 0
   \<and> getAvgResponseTime exact_ops 4 10 = 5 / 2
   \<and> getAvgContentLength 4 10 = 2
   \<and> sint (10 :: int64) \<noteq> - (2 ^ 63)
   \<and> sint (getAvgContentLength 4 10) = 10 sdiv 4
   \<and> getTotalFailRatio exact_ops 4 1 = 1 / 4"
  using C3_zero_guards [of exact_ops 10 1 4]
  by (simp add: exact_ops_def int64_div_def signed_divide_int_def)

lemma sint_word_of_nat:
  assumes "L < 2 ^ 63"
  shows "sint (word_of_nat L :: int64) = int L"
proof -
  have "int L < 2 ^ 63" using assms by simp
  then have "signed_take_bit 63 (int L) = int L"
    by (intro signed_take_bit_int_eq_self) simp_all
  then show ?thesis
    using sint_sbintrunc' [of "int L", where 'a = 64] by simp
qed

lemma len64_value:
  assumes "length m < 2 ^ 63"
  shows "sint (len64 m) = int (length m)" and "len64 m = 0 \<longleftrightarrow> m = []"
proof -
  show s: "sint (len64 m) = int (length m)"
    using assms by (simp add: len64_def sint_word_of_nat)
  have "len64 m = 0 \<longleftrightarrow> sint (len64 m) = 0" by (simp add: signed_eq_0_iff)
  then show "len64 m = 0 \<longleftrightarrow> m = []" using s by simp
qed

lemma card_keys:
  "wf_gomap m \<Longrightarrow> card (dom (map_of m)) = length m"
  by (simp add: wf_gomap_def dom_map_of_conv_image_fst distinct_card flip: set_map)

lemma rate_value:
  assumes "wf_gomap m" "length m < 2 ^ 63"
  shows "sint (if len64 m \<noteq> 0 then int64_div n (len64 m) else 0) =
         (if card (dom (map_of m)) = 0 then 0 else sint n sdiv int (card (dom (map_of m))))"
proof (cases "m = []")
  case True
  then show ?thesis by (simp add: len64_def)
next
  case False
  have l: "sint (len64 m) = int (length m)" and nz: "len64 m \<noteq> 0"
    using assms(2) False by (simp_all add: len64_value)
  have "sint (int64_div n (len64 m)) = sint n sdiv sint (len64 m)"
    using nz l by (intro sint_int64_div) simp_all
  with l nz False assms(1) show ?thesis by (simp add: card_keys)
qed

text \<open>
  C4: for a map of seconds (distinct keys, fewer than \<open>2\<^sup>6\<^sup>3\<close> of them)
  \<^verbatim>\<open>getCurrentRps\<close> and \<^verbatim>\<open>getCurrentFailPerSec\<close> return the count divided, as
  integers and truncating, by the number of keys of the map, and \<open>0\<close> for the empty
  map; the values of the map play no part; 40 requests over four keys give 10.
\<close>

theorem C4_current_rate:
  assumes "wf_gomap m" and "length m < 2 ^ 63"
  shows "sint (getCurrentRps n m) =
           (if card (dom (map_of m)) = 0 then 0 else sint n sdiv int (card (dom (map_of m))))
         \<and> sint (getCurrentFailPerSec n m) =
           (if card (dom (map_of m)) = 0 then 0 else sint n sdiv int (card (dom (map_of m))))
         \<and> (m = [] \<longrightarrow> getCurrentRps n m = 0 \<and> getCurrentFailPerSec n m = 0)
         \<and> (map fst m' = map fst m \<longrightarrow>
              getCurrentRps n m' = getCurrentRps n m
              \<and> getCurrentFailPerSec n m' = getCurrentFailPerSec n m)
         \<and> (card (dom (map_of m)) = 4 \<longrightarrow> getCurrentRps 40 m = 10)"
proof -
  have rps: "getCurrentRps n m = (if len64 m \<noteq> 0 then int64_div n (len64 m) else 0)" for n m
    by (simp add: getCurrentRps_def Let_def)
  have fail: "getCurrentFailPerSec n m = (if len64 m \<noteq> 0 then int64_div n (len64 m) else 0)" for n m
    by (simp add: getCurrentFailPerSec_def Let_def)
  have len: "len64 m' = len64 m" if "map fst m' = map fst m"
    using that by (metis len64_def length_map)
  have four: "getCurrentRps 40 m = 10" if "card (dom (map_of m)) = 4"
  proof -
    have "length m = 4" using that assms(1) by (simp add: card_keys)
    then have "len64 m = 4" by (simp add: len64_def)
    then show ?thesis by (simp add: rps int64_div_def signed_divide_int_def)
  qed
  have empty: "getCurrentRps n [] = 0 \<and> getCurrentFailPerSec n [] = 0"
    by (simp add: rps fail len64_def)
  have 1: "sint (getCurrentRps n m) =
      (if card (dom (map_of m)) = 0 then 0 else sint n sdiv int (card (dom (map_of m))))"
    using rate_value [OF assms, of n] by (simp only: rps)
  have 2: "sint (getCurrentFailPerSec n m) =
      (if card (dom (map_of m)) = 0 then 0 else sint n sdiv int (card (dom (map_of m))))"
    using rate_value [OF assms, of n] by (simp only: fail)
  have 3: "m = [] \<longrightarrow> getCurrentRps n m = 0 \<and> getCurrentFailPerSec n m = 0"
    using empty by blast
  have 4: "map fst m' = map fst m \<longrightarrow>
      getCurrentRps n m' = getCurrentRps n m \<and> getCurrentFailPerSec n m' = getCurrentFailPerSec n m"
  proof
    assume "map fst m' = map fst m"
    then have "len64 m' = len64 m" by (rule len)
    then show "getCurrentRps n m' = getCurrentRps n m
        \<and> getCurrentFailPerSec n m' = getCurrentFailPerSec n m"
      by (simp add: rps fail)
  qed
  have 5: "card (dom (map_of m)) = 4 \<longrightarrow> getCurrentRps 40 m = 10"
    using four by blast
  from 1 2 3 4 5 show ?thesis by blast
qed

theorem C4_current_rate_witness:
  "wf_gomap [(1700000003, 12), (1700000001, 9), (1700000002, 11), (1700000004, 8)]
   \<and> length [(1700000003 :: int64, 12 :: int64), (1700000001, 9), (1700000002, 11), (1700000004, 8)]
       < 2 ^ 63
   \<and> card (dom (map_of [(1700000003 :: int64, 12 :: int64), (1700000001, 9), (1700000002, 11),
        (1700000004, 8)])) = 4
   \<and> getCurrentRps 40 [(1700000003, 12), (1700000001, 9), (1700000002, 11), (1700000004, 8)] = 10
   \<and> sint (getCurrentFailPerSec 7 [(1700000003, 12), (1700000001, 9), (1700000002, 11),
        (1700000004, 8)]) = 1
   \<and> map fst [(1700000003 :: int64, 0 :: int64), (1700000001, 0), (1700000002, 0), (1700000004, 0)]
       = map fst [(1700000003 :: int64, 12 :: int64), (1700000001, 9), (1700000002, 11), (1700000004, 8)]
   \<and> getCurrentRps 40 [(1700000003, 0), (1700000001, 0), (1700000002, 0), (1700000004, 0)] = 10
   \<and> wf_gomap [] \<and> getCurrentRps 40 [] = 0 \<and> getCurrentFailPerSec 40 [] = 0"
proof -
  let ?m = "[(1700000003 :: int64, 12 :: int64), (1700000001, 9), (1700000002, 11), (1700000004, 8)]"
  let ?m' = "[(1700000003 :: int64, 0 :: int64), (1700000001, 0), (1700000002, 0), (1700000004, 0)]"
  have wf: "wf_gomap ?m" by (simp add: wf_gomap_def)
  have len: "length ?m < 2 ^ 63" by simp
  have card: "card (dom (map_of ?m)) = 4" using wf by (simp only: card_keys) simp
  have keys: "map fst ?m' = map fst ?m" by simp
  have wf0: "wf_gomap []" by (simp add: wf_gomap_def)
  have len0: "length ([] :: gomap) < 2 ^ 63" by simp
  have a: "getCurrentRps 40 ?m = 10" and b: "getCurrentRps 40 ?m' = getCurrentRps 40 ?m"
    using C4_current_rate [OF wf len, of 40 ?m'] card keys by blast+
  have "sint (getCurrentFailPerSec 7 ?m) = 7 sdiv 4"
    using C4_current_rate [OF wf len, of 7 ?m'] card by simp
  then have c: "sint (getCurrentFailPerSec 7 ?m) = 1" by (simp add: signed_divide_int_def)
  have d: "getCurrentRps 40 [] = 0 \<and> getCurrentFailPerSec 40 [] = 0"
    using C4_current_rate [OF wf0 len0, of 40 "[]"] by blast
  from wf len card keys wf0 a b c d show ?thesis by simp
qed

section \<open>Independence of the iteration order\<close>

lemma inj_on_key:
  assumes "wf_gomap m"
  shows "inj_on (\<lambda>b. sint (fst b)) (set m)"
proof -
  have "inj_on fst (set m)"
    using assms by (simp add: wf_gomap_def distinct_map)
  then show ?thesis
    by (fastforce simp add: inj_on_def dest: signed_word_eqI)
qed

lemma distinct_gomap: "wf_gomap m \<Longrightarrow> distinct m"
  by (simp add: wf_gomap_def distinct_map)

lemma ascending_unique:
  assumes "same_map m m'"
  shows "ascending m = ascending m'"
proof -
  let ?key = "\<lambda>b :: int64 \<times> int64. sint (fst b)"
  from assms have wf: "wf_gomap m" "wf_gomap m'" and eq: "set m = set m'"
    by (simp_all add: same_map_def)
  have inj: "inj_on ?key (set m)" using wf(1) by (rule inj_on_key)
  have d: "distinct (map ?key (ascending m))" "distinct (map ?key (ascending m'))"
    using inj eq wf by (simp_all add: ascending_def distinct_map distinct_gomap)
  have s: "sorted (map ?key (ascending m))" "sorted (map ?key (ascending m'))"
    by (simp_all add: ascending_def)
  have "set (map ?key (ascending m)) = set (map ?key (ascending m'))"
    using eq by (simp add: ascending_def)
  with s d have "map ?key (ascending m) = map ?key (ascending m')"
    by (intro sorted_distinct_set_unique)
  moreover have "inj_on ?key (set (ascending m) \<union> set (ascending m'))"
    using inj eq by (simp add: ascending_def)
  ultimately show ?thesis
    by (simp add: inj_on_map_eq_map)
qed

lemma same_map_length:
  assumes "same_map m m'"
  shows "length m = length m'"
proof -
  from assms have "distinct m" "distinct m'" "set m = set m'"
    by (simp_all add: same_map_def distinct_gomap)
  then show ?thesis by (metis distinct_card)
qed

text \<open>
  C8: the six derivation functions are functions of their arguments alone: equal
  arguments give equal results, where two maps are equal when they hold the same keys
  with the same counts, in whatever order \<^verbatim>\<open>range\<close> visits them. In particular the
  median does not depend on that order.
\<close>

theorem C8_deterministic:
  assumes "same_map m m'" and "n = n'" and "t = t'"
  shows "getMedianResponseTime n m = getMedianResponseTime n' m'
         \<and> getAvgResponseTime F n t = getAvgResponseTime F n' t'
         \<and> getAvgContentLength n t = getAvgContentLength n' t'
         \<and> getCurrentRps n m = getCurrentRps n' m'
         \<and> getCurrentFailPerSec n m = getCurrentFailPerSec n' m'
         \<and> getTotalFailRatio F n t = getTotalFailRatio F n' t'"
proof -
  have wf: "wf_gomap m" "wf_gomap m'" using assms(1) by (simp_all add: same_map_def)
  have "getMedianResponseTime n m = getMedianResponseTime n m'"
    using ascending_unique [OF assms(1)] by (simp add: getMedian_walk wf)
  moreover have "len64 m = len64 m'"
    using same_map_length [OF assms(1)] by (simp add: len64_def)
  ultimately show ?thesis
    using assms(2,3) by (simp add: getCurrentRps_def getCurrentFailPerSec_def)
qed

theorem C8_deterministic_witness:
  "same_map [(300, 1), (100, 3), (200, 2)] [(200, 2), (300, 1), (100, 3)]
   \<and> getMedianResponseTime 6 [(300, 1), (100, 3), (200, 2)]
       = getMedianResponseTime 6 [(200, 2), (300, 1), (100, 3)]
   \<and> getCurrentRps 6 [(300, 1), (100, 3), (200, 2)] = getCurrentRps 6 [(200, 2), (300, 1), (100, 3)]
   \<and> getCurrentFailPerSec 6 [(300, 1), (100, 3), (200, 2)]
       = getCurrentFailPerSec 6 [(200, 2), (300, 1), (100, 3)]
   \<and> getAvgResponseTime exact_ops 6 900 = getAvgResponseTime exact_ops 6 900
   \<and> getAvgContentLength 6 900 = getAvgContentLength 6 900
   \<and> getTotalFailRatio exact_ops 6 900 = getTotalFailRatio exact_ops 6 900"
proof -
  have sm: "same_map [(300, 1), (100, 3), (200, 2)] [(200, 2), (300, 1), (100, 3)]"
    by (auto simp add: same_map_def wf_gomap_def)
  show ?thesis
    using C8_deterministic [where F = exact_ops and n = 6 and n' = 6 and t = 900 and t' = 900,
        OF sm refl refl] sm
    by blast
qed

section \<open>Properties of the snapshot decoder\<close>

lemma sequence_map_Inr: "sequence (map Inr xs) = Inr xs"
  by (induction xs) simp_all

lemma sequence_Inr: "sequence rs = Inr xs \<longleftrightarrow> rs = map Inr xs"
proof
  show "sequence rs = Inr xs \<Longrightarrow> rs = map Inr xs"
  proof (induction rs arbitrary: xs)
    case Nil
    then show ?case by simp
  next
    case (Cons r rs)
    then show ?case by (cases r) (auto split: sum.splits)
  qed
qed (simp add: sequence_map_Inr)

lemma convert_stats_sequence:
  "convert_stats F stats acc =
     (case sequence (map (deserializeStatsEntry F) stats) of
        Inl err \<Rightarrow> Inl err
      | Inr es \<Rightarrow> Inr (acc\<lparr>Stats := Stats acc @ es\<rparr>))"
proof (induction stats arbitrary: acc)
  case Nil
  then show ?case by simp
next
  case (Cons stat rest)
  then show ?case
    by (cases "deserializeStatsEntry F stat") (simp_all split: sum.splits)
qed

lemma convert_stats_Inr:
  "convert_stats F stats acc = Inr out \<longleftrightarrow>
     (\<exists>es. map (deserializeStatsEntry F) stats = map Inr es
           \<and> out = acc\<lparr>Stats := Stats acc @ es\<rparr>)"
  by (auto simp add: convert_stats_sequence sequence_Inr sequence_map_Inr split: sum.splits)

text \<open>What \<^verbatim>\<open>convertData\<close> returns when it returns a snapshot.\<close>

lemma convertData_Inr:
  "convertData F data = Inr out \<longleftrightarrow>
     (\<exists>userCount stats total es.
        assert_int32 (map_index data ''user_count'') = Some userCount
        \<and> assert_slice (map_index data ''stats'') = Some stats
        \<and> deserializeStatsEntry F (map_index data ''stats_total'') = Inr total
        \<and> map (deserializeStatsEntry F) stats = map Inr es
        \<and> out = \<lparr>UserCount = userCount, TotalStats = total,
                  TotalRPS = getCurrentRps (NumRequests (statsEntry total))
                               (NumReqsPerSec (statsEntry total)),
                  TotalFailRatio = getTotalFailRatio F (NumRequests (statsEntry total))
                                     (NumFailures (statsEntry total)),
                  Stats = es, Errors = []\<rparr>)"
  by (auto simp add: convertData_def convert_stats_Inr Let_def split: option.splits sum.splits)

lemma assert_int32_Some: "assert_int32 v = Some u \<longleftrightarrow> v = DInt32 u"
  by (cases v) auto

lemma deserialize_nil:
  "v \<in> {DNil, DNilSlice, DNilMap} \<Longrightarrow> deserializeStatsEntry F v = Inr (zero_output F)"
  by (auto simp add: deserializeStatsEntry_def json_Unmarshal_def statsEntry_zero_def zero_output_def
      getMedianResponseTime_def getAvgResponseTime_def getAvgContentLength_def getCurrentRps_def
      getCurrentFailPerSec_def len64_def)

lemma decode_a: "deserializeStatsEntry exact_ops group_a = Inr entry_a"
  unfolding group_a_def entry_a_def by code_simp

lemma decode_b: "deserializeStatsEntry exact_ops group_b = Inr entry_b"
  unfolding group_b_def entry_b_def by code_simp

text \<open>
  C5: an event without the key \<^verbatim>\<open>user_count\<close> is answered with the error
  \<^verbatim>\<open>user_count is not int32\<close>, and so with no snapshot.
\<close>

theorem C5_user_count_absent:
  "data ''user_count'' = None \<Longrightarrow> convertData F data = Inl (Errorf ''user_count is not int32'')"
  by (simp add: convertData_def map_index_def)

theorem C5_user_count_absent_witness:
  "[''stats'' \<mapsto> DSlice [], ''stats_total'' \<mapsto> (DNilMap :: rat dyn)] ''user_count'' = None
   \<and> convertData exact_ops [''stats'' \<mapsto> DSlice [], ''stats_total'' \<mapsto> DNilMap]
       = Inl (Errorf ''user_count is not int32'')"
proof -
  have absent: "[''stats'' \<mapsto> DSlice [], ''stats_total'' \<mapsto> (DNilMap :: rat dyn)] ''user_count'' = None"
    by simp
  from absent
    C5_user_count_absent [where F = exact_ops
      and data = "[''stats'' \<mapsto> DSlice [], ''stats_total'' \<mapsto> DNilMap]", OF absent]
  show ?thesis by blast
qed

text \<open>
  C10: \<^verbatim>\<open>convertData\<close> takes the user count from a value of dynamic type \<^verbatim>\<open>int32\<close>
  only. Whenever \<^verbatim>\<open>user_count\<close> holds anything else, an \<^verbatim>\<open>int\<close>, an \<^verbatim>\<open>int64\<close> or a
  \<^verbatim>\<open>float64\<close> included, the result is the error \<^verbatim>\<open>user_count is not int32\<close> and no
  snapshot; a snapshot is returned only for an \<^verbatim>\<open>int32\<close>, which it carries.
\<close>

theorem C10_user_count_int32_only:
  "((\<forall>v. map_index data ''user_count'' \<noteq> DInt32 v) \<longrightarrow>
      convertData F data = Inl (Errorf ''user_count is not int32''))
   \<and> (convertData F data = Inr out \<longrightarrow> map_index data ''user_count'' = DInt32 (UserCount out))"
proof -
  have "assert_int32 (map_index data ''user_count'') = None"
    if "\<forall>v. map_index data ''user_count'' \<noteq> DInt32 v"
    using that by (cases "map_index data ''user_count''") simp_all
  then have 1: "(\<forall>v. map_index data ''user_count'' \<noteq> DInt32 v) \<longrightarrow>
      convertData F data = Inl (Errorf ''user_count is not int32'')"
    by (simp add: convertData_def)
  have 2: "convertData F data = Inr out \<longrightarrow> map_index data ''user_count'' = DInt32 (UserCount out)"
    by (auto simp add: convertData_Inr assert_int32_Some)
  from 1 2 show ?thesis by blast
qed


theorem C10_user_count_int32_only_witness:
  "(\<forall>v. map_index [''user_count'' \<mapsto> DFloat64 (3 :: rat), ''stats'' \<mapsto> DSlice []] ''user_count''
        \<noteq> DInt32 v)
   \<and> convertData exact_ops [''user_count'' \<mapsto> DFloat64 3, ''stats'' \<mapsto> DSlice []]
       = Inl (Errorf ''user_count is not int32'')
   \<and> (\<forall>v. map_index [''user_count'' \<mapsto> (DInt64 3 :: rat dyn), ''stats'' \<mapsto> DSlice []] ''user_count''
        \<noteq> DInt32 v)
   \<and> convertData exact_ops [''user_count'' \<mapsto> DInt64 3, ''stats'' \<mapsto> DSlice []]
       = Inl (Errorf ''user_count is not int32'')
   \<and> (\<forall>v. map_index [''user_count'' \<mapsto> (DInt 3 :: rat dyn), ''stats'' \<mapsto> DSlice []] ''user_count''
        \<noteq> DInt32 v)
   \<and> convertData exact_ops [''user_count'' \<mapsto> DInt 3, ''stats'' \<mapsto> DSlice []]
       = Inl (Errorf ''user_count is not int32'')
   \<and> convertData exact_ops [''user_count'' \<mapsto> DInt32 3, ''stats'' \<mapsto> DSlice []]
       = Inr \<lparr>UserCount = 3, TotalStats = zero_output exact_ops, TotalRPS = 0, TotalFailRatio = 0,
              Stats = [], Errors = []\<rparr>
   \<and> map_index [''user_count'' \<mapsto> (DInt32 3 :: rat dyn), ''stats'' \<mapsto> DSlice []] ''user_count''
       = DInt32 3"
proof -
  let ?f = "[''user_count'' \<mapsto> DFloat64 (3 :: rat), ''stats'' \<mapsto> DSlice []]"
  let ?l = "[''user_count'' \<mapsto> (DInt64 3 :: rat dyn), ''stats'' \<mapsto> DSlice []]"
  let ?i = "[''user_count'' \<mapsto> (DInt 3 :: rat dyn), ''stats'' \<mapsto> DSlice []]"
  let ?ok = "[''user_count'' \<mapsto> (DInt32 3 :: rat dyn), ''stats'' \<mapsto> DSlice []]"
  let ?out = "\<lparr>UserCount = 3, TotalStats = zero_output exact_ops, TotalRPS = 0,
    TotalFailRatio = (0 :: rat), Stats = [], Errors = []\<rparr>"
  have f: "\<forall>v. map_index ?f ''user_count'' \<noteq> DInt32 v"
    and l: "\<forall>v. map_index ?l ''user_count'' \<noteq> DInt32 v"
    and i: "\<forall>v. map_index ?i ''user_count'' \<noteq> DInt32 v"
    by (simp_all add: map_index_def)
  have ok: "convertData exact_ops ?ok = Inr ?out"
    by (simp add: convertData_def map_index_def deserialize_nil zero_output_def statsEntry_zero_def
        getCurrentRps_def getTotalFailRatio_def len64_def exact_ops_def)
  from f l i ok
    C10_user_count_int32_only [of ?f exact_ops ?out]
    C10_user_count_int32_only [of ?l exact_ops ?out]
    C10_user_count_int32_only [of ?i exact_ops ?out]
    C10_user_count_int32_only [of ?ok exact_ops ?out]
  show ?thesis by simp
qed

text \<open>
  C9: when the event has an \<^verbatim>\<open>int32\<close> user count and a stats list whose entries all
  deserialize, and \<^verbatim>\<open>stats_total\<close> is absent or nil, \<^verbatim>\<open>convertData\<close> returns a
  snapshot (no error): nil is marshalled as \<^verbatim>\<open>null\<close>, which \<^verbatim>\<open>Unmarshal\<close> accepts and
  which leaves the entry at its zero value. The total entry of the snapshot has every
  counter at zero, and its median, averages and rates, the total RPS and the total
  fail ratio are all zero.
\<close>

theorem C9_nil_total:
  assumes "map_index data ''stats_total'' \<in> {DNil, DNilSlice, DNilMap}"
    and "map_index data ''user_count'' = DInt32 userCount"
    and "assert_slice (map_index data ''stats'') = Some stats"
    and "map (deserializeStatsEntry F) stats = map Inr es"
  shows "convertData F data =
           Inr \<lparr>UserCount = userCount,
                TotalStats =
                  \<lparr>statsEntry =
                     \<lparr>Name = [], Method = [], NumRequests = 0, NumFailures = 0,
                      TotalResponseTime = 0, MinResponseTime = 0, MaxResponseTime = 0,
                      NumReqsPerSec = [], NumFailPerSec = [], ResponseTimes = [],
                      TotalContentLength = 0\<rparr>,
                   medianResponseTime = 0, avgResponseTime = f64_zero F, avgContentLength = 0,
                   currentRps = 0, currentFailPerSec = 0\<rparr>,
                TotalRPS = 0, TotalFailRatio = f64_zero F, Stats = es, Errors = []\<rparr>"
proof -
  have "deserializeStatsEntry F (map_index data ''stats_total'') = Inr (zero_output F)"
    using assms(1) by (rule deserialize_nil)
  then show ?thesis
    using assms(2-4)
    by (simp add: convertData_Inr zero_output_def statsEntry_zero_def getCurrentRps_def
        getTotalFailRatio_def len64_def)
qed

theorem C9_nil_total_witness:
  "map_index [''user_count'' \<mapsto> DInt32 3, ''stats'' \<mapsto> DSlice [group_a]] ''stats_total''
     \<in> {DNil, DNilSlice, DNilMap}
   \<and> convertData exact_ops [''user_count'' \<mapsto> DInt32 3, ''stats'' \<mapsto> DSlice [group_a]]
       = Inr \<lparr>UserCount = 3,
              TotalStats =
                \<lparr>statsEntry =
                   \<lparr>Name = [], Method = [], NumRequests = 0, NumFailures = 0,
                    TotalResponseTime = 0, MinResponseTime = 0, MaxResponseTime = 0,
                    NumReqsPerSec = [], NumFailPerSec = [], ResponseTimes = [],
                    TotalContentLength = 0\<rparr>,
                 medianResponseTime = 0, avgResponseTime = 0, avgContentLength = 0,
                 currentRps = 0, currentFailPerSec = 0\<rparr>,
              TotalRPS = 0, TotalFailRatio = 0, Stats = [entry_a], Errors = []\<rparr>
   \<and> map_index [''user_count'' \<mapsto> DInt32 3, ''stats'' \<mapsto> DNilSlice, ''stats_total'' \<mapsto> DNil]
       ''stats_total'' \<in> {DNil, DNilSlice, DNilMap :: rat dyn}
   \<and> convertData exact_ops
        [''user_count'' \<mapsto> DInt32 3, ''stats'' \<mapsto> DNilSlice, ''stats_total'' \<mapsto> DNil]
       = Inr \<lparr>UserCount = 3,
              TotalStats =
                \<lparr>statsEntry =
                   \<lparr>Name = [], Method = [], NumRequests = 0, NumFailures = 0,
                    TotalResponseTime = 0, MinResponseTime = 0, MaxResponseTime = 0,
                    NumReqsPerSec = [], NumFailPerSec = [], ResponseTimes = [],
                    TotalContentLength = 0\<rparr>,
                 medianResponseTime = 0, avgResponseTime = 0, avgContentLength = 0,
                 currentRps = 0, currentFailPerSec = 0\<rparr>,
              TotalRPS = 0, TotalFailRatio = 0, Stats = [], Errors = []\<rparr>"
proof -
  let ?ev = "[''user_count'' \<mapsto> DInt32 3, ''stats'' \<mapsto> DSlice [group_a]]"
  let ?ev' = "[''user_count'' \<mapsto> DInt32 3, ''stats'' \<mapsto> DNilSlice, ''stats_total'' \<mapsto> (DNil :: rat dyn)]"
  have t: "map_index ?ev ''stats_total'' \<in> {DNil, DNilSlice, DNilMap}"
    and u: "map_index ?ev ''user_count'' = DInt32 3"
    and l: "assert_slice (map_index ?ev ''stats'') = Some [group_a]"
    by (simp_all add: map_index_def)
  have d: "map (deserializeStatsEntry exact_ops) [group_a] = map Inr [entry_a]"
    by (simp add: decode_a)
  have t': "map_index ?ev' ''stats_total'' \<in> {DNil, DNilSlice, DNilMap}"
    and u': "map_index ?ev' ''user_count'' = DInt32 3"
    and l': "assert_slice (map_index ?ev' ''stats'') = Some []"
    by (simp_all add: map_index_def)
  have d': "map (deserializeStatsEntry exact_ops) [] = map Inr []"
    by simp
  have z: "f64_zero exact_ops = 0" by (simp add: exact_ops_def)
  from t t' C9_nil_total [OF t u l d] C9_nil_total [OF t' u' l' d'] show ?thesis
    by (simp add: z)
qed

section \<open>Properties of the sinks\<close>

lemma fold_table_Append:
  "fold (\<lambda>stat t. table_Append (f stat) t) xs t = t\<lparr>rows := rows t @ map f xs\<rparr>"
  by (induction xs arbitrary: t) (simp_all add: table_Append_def)

lemma console_rows:
  "convertData F data = Inr out \<Longrightarrow>
   ConsoleOutput_OnEvent F now data logger =
     logger @ [Log_summary now (UserCount out) (TotalRPS out)
                 (f64_mul F (TotalFailRatio out) (f64_of_int64 F 100)),
               Table_render table_header (map (make_row F) (Stats out)),
               Log_empty]"
  by (simp add: ConsoleOutput_OnEvent_def fold_table_Append Let_def)

lemma console_append:
  "ConsoleOutput_OnEvent F now data logger = logger @ ConsoleOutput_OnEvent F now data []"
  by (cases "convertData F data") (simp_all add: ConsoleOutput_OnEvent_def Let_def)

lemma pusher_gauges:
  "convertData F data = Inr out \<Longrightarrow>
   gauges (PrometheusPusherOutput_OnEvent F pushResult data s) =
     fold (set_stat_gauges F) (Stats out)
       (gauge_Set ''boomer_fail_ratio'' [] (TotalFailRatio out)
         (gauge_Set ''boomer_total_rps'' [] (f64_of_int64 F (TotalRPS out))
           (gauge_Set ''boomer_users'' [] (f64_of_int32 F (UserCount out)) (gauges s))))"
  by (simp add: PrometheusPusherOutput_OnEvent_def Let_def)

lemma set_stat_gauges_num_requests:
  "set_stat_gauges F stat g (''boomer_num_requests'', [Method (statsEntry stat), Name (statsEntry stat)])
   = Some (f64_of_int64 F (NumRequests (statsEntry stat)))"
  by (simp add: set_stat_gauges_def gauge_Set_def Let_def)

lemma pusher_last_wins:
  assumes "convertData F data = Inr out" and "Stats out \<noteq> []"
  shows "gauges (PrometheusPusherOutput_OnEvent F pushResult data s)
           (''boomer_num_requests'',
            [Method (statsEntry (last (Stats out))), Name (statsEntry (last (Stats out)))])
         = Some (f64_of_int64 F (NumRequests (statsEntry (last (Stats out)))))"
proof -
  from assms(2) obtain xs x where sx: "Stats out = xs @ [x]"
    by (metis append_butlast_last_id)
  show ?thesis
    by (simp add: pusher_gauges [OF assms(1)] sx set_stat_gauges_num_requests)
qed

lemma row_a:
  "make_row exact_ops entry_a
   = [[], ''/a'', ''6'', ''0'', ''0'', ''0.00'', ''0'', ''0'', ''0'', ''0'', ''0'']"
  unfolding entry_a_def by code_simp

lemma row_b:
  "make_row exact_ops entry_b
   = [[], ''/b'', ''0'', ''2'', ''0'', ''0.00'', ''0'', ''0'', ''0'', ''0'', ''0'']"
  unfolding entry_b_def by code_simp

lemma convert_example:
  "convertData exact_ops
     [''user_count'' \<mapsto> DInt32 3, ''stats'' \<mapsto> DSlice [group_b, group_a, group_b]]
   = Inr \<lparr>UserCount = 3, TotalStats = zero_output exact_ops, TotalRPS = 0, TotalFailRatio = 0,
          Stats = [entry_b, entry_a, entry_b], Errors = []\<rparr>"
proof -
  have z: "f64_zero exact_ops = 0" by (simp add: exact_ops_def)
  show ?thesis
    by (simp add: convertData_Inr map_index_def decode_a decode_b deserialize_nil zero_output_def
        statsEntry_zero_def getCurrentRps_def getTotalFailRatio_def len64_def z)
qed

text \<open>
  C6: when \<^verbatim>\<open>convertData\<close> returns a snapshot, its per-group entries are the
  deserialized elements of the input list, one for one and in the order of the list:
  nothing is sorted, merged, added or dropped, so the lengths agree. The console sink
  renders one table row per entry in that order, and the push sink sets the gauges of
  the entries in that order, so that the last of two entries with the same method and
  name is the one whose values remain.
\<close>

theorem C6_order_preserved:
  assumes "convertData F data = Inr out"
    and "assert_slice (map_index data ''stats'') = Some stats"
  shows "map (deserializeStatsEntry F) stats = map Inr (Stats out)
         \<and> length (Stats out) = length stats
         \<and> ConsoleOutput_OnEvent F now data logger =
             logger @ [Log_summary now (UserCount out) (TotalRPS out)
                         (f64_mul F (TotalFailRatio out) (f64_of_int64 F 100)),
                       Table_render table_header (map (make_row F) (Stats out)),
                       Log_empty]
         \<and> gauges (PrometheusPusherOutput_OnEvent F pushResult data s) =
             fold (set_stat_gauges F) (Stats out)
               (gauge_Set ''boomer_fail_ratio'' [] (TotalFailRatio out)
                 (gauge_Set ''boomer_total_rps'' [] (f64_of_int64 F (TotalRPS out))
                   (gauge_Set ''boomer_users'' [] (f64_of_int32 F (UserCount out)) (gauges s))))
         \<and> (Stats out \<noteq> [] \<longrightarrow>
              gauges (PrometheusPusherOutput_OnEvent F pushResult data s)
                (''boomer_num_requests'',
                 [Method (statsEntry (last (Stats out))), Name (statsEntry (last (Stats out)))])
              = Some (f64_of_int64 F (NumRequests (statsEntry (last (Stats out))))))"
proof -
  have m: "map (deserializeStatsEntry F) stats = map Inr (Stats out)"
    using assms by (auto simp add: convertData_Inr)
  then have "length (map (deserializeStatsEntry F) stats) = length (map Inr (Stats out))"
    by simp
  then have l: "length (Stats out) = length stats" by simp
  from m l console_rows [OF assms(1)] pusher_gauges [OF assms(1)] pusher_last_wins [OF assms(1)]
  show ?thesis by blast
qed

theorem C6_order_preserved_witness:
  "convertData exact_ops
     [''user_count'' \<mapsto> DInt32 3, ''stats'' \<mapsto> DSlice [group_b, group_a, group_b]]
   = Inr \<lparr>UserCount = 3, TotalStats = zero_output exact_ops, TotalRPS = 0, TotalFailRatio = 0,
          Stats = [entry_b, entry_a, entry_b], Errors = []\<rparr>
   \<and> assert_slice
        (map_index [''user_count'' \<mapsto> DInt32 3, ''stats'' \<mapsto> DSlice [group_b, group_a, group_b]]
           ''stats'')
       = Some [group_b, group_a, group_b]
   \<and> map (deserializeStatsEntry exact_ops) [group_b, group_a, group_b]
       = map Inr [entry_b, entry_a, entry_b]
   \<and> length [entry_b, entry_a, entry_b] = length [group_b, group_a, group_b]
   \<and> ConsoleOutput_OnEvent exact_ops 0
        [''user_count'' \<mapsto> DInt32 3, ''stats'' \<mapsto> DSlice [group_b, group_a, group_b]] []
       = [Log_summary 0 3 0 0,
          Table_render table_header
            [[[], ''/b'', ''0'', ''2'', ''0'', ''0.00'', ''0'', ''0'', ''0'', ''0'', ''0''],
             [[], ''/a'', ''6'', ''0'', ''0'', ''0.00'', ''0'', ''0'', ''0'', ''0'', ''0''],
             [[], ''/b'', ''0'', ''2'', ''0'', ''0.00'', ''0'', ''0'', ''0'', ''0'', ''0'']],
          Log_empty]
   \<and> gauges
        (PrometheusPusherOutput_OnEvent exact_ops None
           [''user_count'' \<mapsto> DInt32 3, ''stats'' \<mapsto> DSlice [group_b, group_a, group_b]]
           \<lparr>gauges = Map.empty, pushes = [], logged = []\<rparr>)
        (''boomer_num_requests'', [[], ''/b''])
       = Some 0"
proof -
  let ?ev = "[''user_count'' \<mapsto> DInt32 3, ''stats'' \<mapsto> DSlice [group_b, group_a, group_b]]"
  let ?out = "\<lparr>UserCount = 3, TotalStats = zero_output exact_ops, TotalRPS = 0,
    TotalFailRatio = 0, Stats = [entry_b, entry_a, entry_b], Errors = []\<rparr>"
  have l: "assert_slice (map_index ?ev ''stats'') = Some [group_b, group_a, group_b]"
    by (simp add: map_index_def)
  have b: "Method (statsEntry entry_b) = []" "Name (statsEntry entry_b) = ''/b''"
    "NumRequests (statsEntry entry_b) = 0"
    by (simp_all add: entry_b_def statsEntry_zero_def)
  have x: "f64_mul exact_ops 0 (f64_of_int64 exact_ops 100) = 0" "f64_of_int64 exact_ops 0 = 0"
    by (simp_all add: exact_ops_def)
  note inst = C6_order_preserved [OF convert_example l, of 0 "[]" None
      "\<lparr>gauges = Map.empty, pushes = [], logged = []\<rparr>"]
  from inst have m: "map (deserializeStatsEntry exact_ops) [group_b, group_a, group_b]
      = map Inr [entry_b, entry_a, entry_b]"
    by simp
  from inst have "ConsoleOutput_OnEvent exact_ops 0 ?ev []
      = [] @ [Log_summary 0 (UserCount ?out) (TotalRPS ?out)
                (f64_mul exact_ops (TotalFailRatio ?out) (f64_of_int64 exact_ops 100)),
              Table_render table_header (map (make_row exact_ops) (Stats ?out)),
              Log_empty]"
    by blast
  then have c: "ConsoleOutput_OnEvent exact_ops 0 ?ev []
      = [Log_summary 0 3 0 0,
         Table_render table_header
           [[[], ''/b'', ''0'', ''2'', ''0'', ''0.00'', ''0'', ''0'', ''0'', ''0'', ''0''],
            [[], ''/a'', ''6'', ''0'', ''0'', ''0.00'', ''0'', ''0'', ''0'', ''0'', ''0''],
            [[], ''/b'', ''0'', ''2'', ''0'', ''0.00'', ''0'', ''0'', ''0'', ''0'', ''0'']],
         Log_empty]"
    by (simp add: row_a row_b x)
  from inst have "Stats ?out \<noteq> [] \<longrightarrow>
      gauges (PrometheusPusherOutput_OnEvent exact_ops None ?ev
                \<lparr>gauges = Map.empty, pushes = [], logged = []\<rparr>)
        (''boomer_num_requests'',
         [Method (statsEntry (last (Stats ?out))), Name (statsEntry (last (Stats ?out)))])
      = Some (f64_of_int64 exact_ops (NumRequests (statsEntry (last (Stats ?out)))))"
    by blast
  then have g: "gauges (PrometheusPusherOutput_OnEvent exact_ops None ?ev
                \<lparr>gauges = Map.empty, pushes = [], logged = []\<rparr>)
        (''boomer_num_requests'', [[], ''/b'']) = Some 0"
    by (simp add: b x)
  from convert_example l m c g show ?thesis by simp
qed

text \<open>
  C7: when the event does not decode, either sink writes the one log line with the
  error and does nothing else (no table; no gauge is set and nothing is pushed), and
  \<^verbatim>\<open>OnEvent\<close> returns normally. The next event is handled as it would have been
  without the failed one: the console sink writes the same items after that line, and
  the push sink ends with the same gauges and the same pushes.
\<close>

theorem C7_decode_failure_isolated:
  assumes "convertData F bad = Inl err"
  shows "ConsoleOutput_OnEvent F now bad logger = logger @ [Log_convert_error err]
         \<and> PrometheusPusherOutput_OnEvent F pushResult bad s
             = s\<lparr>logged := logged s @ [Log_convert_error err]\<rparr>
         \<and> ConsoleOutput_OnEvent F now' data (ConsoleOutput_OnEvent F now bad logger)
             = logger @ [Log_convert_error err] @ ConsoleOutput_OnEvent F now' data []
         \<and> ConsoleOutput_OnEvent F now' data logger = logger @ ConsoleOutput_OnEvent F now' data []
         \<and> gauges (PrometheusPusherOutput_OnEvent F pushResult' data
                     (PrometheusPusherOutput_OnEvent F pushResult bad s))
             = gauges (PrometheusPusherOutput_OnEvent F pushResult' data s)
         \<and> pushes (PrometheusPusherOutput_OnEvent F pushResult' data
                     (PrometheusPusherOutput_OnEvent F pushResult bad s))
             = pushes (PrometheusPusherOutput_OnEvent F pushResult' data s)"
proof -
  have c: "ConsoleOutput_OnEvent F now bad logger = logger @ [Log_convert_error err]"
    using assms by (simp add: ConsoleOutput_OnEvent_def)
  have p: "PrometheusPusherOutput_OnEvent F pushResult bad s
      = s\<lparr>logged := logged s @ [Log_convert_error err]\<rparr>"
    using assms by (simp add: PrometheusPusherOutput_OnEvent_def)
  have c2: "ConsoleOutput_OnEvent F now' data (ConsoleOutput_OnEvent F now bad logger)
      = logger @ [Log_convert_error err] @ ConsoleOutput_OnEvent F now' data []"
    using console_append [of F now' data "logger @ [Log_convert_error err]"] by (simp add: c)
  have g: "gauges (PrometheusPusherOutput_OnEvent F pushResult' data
                     (PrometheusPusherOutput_OnEvent F pushResult bad s))
             = gauges (PrometheusPusherOutput_OnEvent F pushResult' data s)"
    unfolding p
    by (cases "convertData F data") (simp_all add: PrometheusPusherOutput_OnEvent_def Let_def)
  have q: "pushes (PrometheusPusherOutput_OnEvent F pushResult' data
                     (PrometheusPusherOutput_OnEvent F pushResult bad s))
             = pushes (PrometheusPusherOutput_OnEvent F pushResult' data s)"
    unfolding p
    by (cases "convertData F data") (simp_all add: PrometheusPusherOutput_OnEvent_def Let_def)
  from c p c2 g q console_append [of F now' data logger] show ?thesis by blast
qed

theorem C7_decode_failure_isolated_witness:
  "convertData exact_ops [''stats'' \<mapsto> DSlice [group_a]] = Inl (Errorf ''user_count is not int32'')
   \<and> ConsoleOutput_OnEvent exact_ops 0 [''stats'' \<mapsto> DSlice [group_a]] []
       = [Log_convert_error (Errorf ''user_count is not int32'')]
   \<and> PrometheusPusherOutput_OnEvent exact_ops None [''stats'' \<mapsto> DSlice [group_a]]
        \<lparr>gauges = Map.empty, pushes = [], logged = []\<rparr>
       = \<lparr>gauges = Map.empty, pushes = [],
          logged = [Log_convert_error (Errorf ''user_count is not int32'')]\<rparr>
   \<and> ConsoleOutput_OnEvent exact_ops 3
        [''user_count'' \<mapsto> DInt32 3, ''stats'' \<mapsto> DSlice [group_b, group_a, group_b]]
        (ConsoleOutput_OnEvent exact_ops 0 [''stats'' \<mapsto> DSlice [group_a]] [])
       = [Log_convert_error (Errorf ''user_count is not int32''),
          Log_summary 3 3 0 0,
          Table_render table_header
            [[[], ''/b'', ''0'', ''2'', ''0'', ''0.00'', ''0'', ''0'', ''0'', ''0'', ''0''],
             [[], ''/a'', ''6'', ''0'', ''0'', ''0.00'', ''0'', ''0'', ''0'', ''0'', ''0''],
             [[], ''/b'', ''0'', ''2'', ''0'', ''0.00'', ''0'', ''0'', ''0'', ''0'', ''0'']],
          Log_empty]
   \<and> gauges
        (PrometheusPusherOutput_OnEvent exact_ops None
           [''user_count'' \<mapsto> DInt32 3, ''stats'' \<mapsto> DSlice [group_b, group_a, group_b]]
           (PrometheusPusherOutput_OnEvent exact_ops None [''stats'' \<mapsto> DSlice [group_a]]
              \<lparr>gauges = Map.empty, pushes = [], logged = []\<rparr>))
       = gauges
           (PrometheusPusherOutput_OnEvent exact_ops None
              [''user_count'' \<mapsto> DInt32 3, ''stats'' \<mapsto> DSlice [group_b, group_a, group_b]]
              \<lparr>gauges = Map.empty, pushes = [], logged = []\<rparr>)"
proof -
  let ?bad = "[''stats'' \<mapsto> DSlice [group_a]]"
  let ?ev = "[''user_count'' \<mapsto> DInt32 3, ''stats'' \<mapsto> DSlice [group_b, group_a, group_b]]"
  let ?s = "\<lparr>gauges = Map.empty, pushes = [], logged = []\<rparr> :: rat pusher_state"
  have bad: "convertData exact_ops ?bad = Inl (Errorf ''user_count is not int32'')"
    by (simp add: convertData_def map_index_def)
  have x: "f64_mul exact_ops 0 (f64_of_int64 exact_ops 100) = 0"
    by (simp add: exact_ops_def)
  have good: "ConsoleOutput_OnEvent exact_ops 3 ?ev []
      = [Log_summary 3 3 0 0,
         Table_render table_header
           [[[], ''/b'', ''0'', ''2'', ''0'', ''0.00'', ''0'', ''0'', ''0'', ''0'', ''0''],
            [[], ''/a'', ''6'', ''0'', ''0'', ''0.00'', ''0'', ''0'', ''0'', ''0'', ''0''],
            [[], ''/b'', ''0'', ''2'', ''0'', ''0.00'', ''0'', ''0'', ''0'', ''0'', ''0'']],
         Log_empty]"
    by (simp add: console_rows [OF convert_example] row_a row_b x)
  note inst = C7_decode_failure_isolated [OF bad, of 0 "[]" None ?s 3 ?ev None]
  from inst have c1: "ConsoleOutput_OnEvent exact_ops 0 ?bad []
      = [] @ [Log_convert_error (Errorf ''user_count is not int32'')]"
    by blast
  from inst have p1: "PrometheusPusherOutput_OnEvent exact_ops None ?bad ?s
      = ?s\<lparr>logged := logged ?s @ [Log_convert_error (Errorf ''user_count is not int32'')]\<rparr>"
    by blast
  from inst have "ConsoleOutput_OnEvent exact_ops 3 ?ev (ConsoleOutput_OnEvent exact_ops 0 ?bad [])
      = [] @ [Log_convert_error (Errorf ''user_count is not int32'')]
        @ ConsoleOutput_OnEvent exact_ops 3 ?ev []"
    by blast
  then have c2: "ConsoleOutput_OnEvent exact_ops 3 ?ev (ConsoleOutput_OnEvent exact_ops 0 ?bad [])
      = [Log_convert_error (Errorf ''user_count is not int32''),
         Log_summary 3 3 0 0,
         Table_render table_header
           [[[], ''/b'', ''0'', ''2'', ''0'', ''0.00'', ''0'', ''0'', ''0'', ''0'', ''0''],
            [[], ''/a'', ''6'', ''0'', ''0'', ''0.00'', ''0'', ''0'', ''0'', ''0'', ''0''],
            [[], ''/b'', ''0'', ''2'', ''0'', ''0.00'', ''0'', ''0'', ''0'', ''0'', ''0'']],
         Log_empty]"
    by (simp only: good append.simps)
  from inst have g: "gauges (PrometheusPusherOutput_OnEvent exact_ops None ?ev
        (PrometheusPusherOutput_OnEvent exact_ops None ?bad ?s))
      = gauges (PrometheusPusherOutput_OnEvent exact_ops None ?ev ?s)"
    by blast
  have c1': "ConsoleOutput_OnEvent exact_ops 0 ?bad []
      = [Log_convert_error (Errorf ''user_count is not int32'')]"
    using c1 by simp
  have p1': "PrometheusPusherOutput_OnEvent exact_ops None ?bad ?s
      = \<lparr>gauges = Map.empty, pushes = [],
         logged = [Log_convert_error (Errorf ''user_count is not int32'')]\<rparr>"
    using p1 by simp
  from bad c1' p1' c2 g show ?thesis by blast
qed

section \<open>Which values transcode\<close>

lemma saveError_not_None: "saveError e saved \<noteq> None"
  by (simp add: saveError_def split: option.splits)

lemma decode_string_None:
  "fst (decode_string j (saved, cur)) = None \<longleftrightarrow> saved = None \<and> string_value j"
  by (cases j) (simp_all add: string_value_def saveError_not_None)

lemma decode_int64_None:
  "fst (decode_int64 j (saved, cur)) = None \<longleftrightarrow> saved = None \<and> int64_value j"
  by (cases j) (auto simp add: int64_value_def saveError_not_None split: option.splits)

lemma decode_map_entry_None:
  "fst (decode_map_entry kv st) = None \<longleftrightarrow>
     fst st = None \<and> ParseInt (fst kv) \<noteq> None \<and> int64_value (snd kv)"
proof -
  obtain key j where kv: "kv = (key, j)" by (cases kv)
  obtain saved m where st: "st = (saved, m)" by (cases st)
  obtain saved' elem where d: "decode_int64 j (saved, 0) = (saved', elem)"
    by (cases "decode_int64 j (saved, 0)")
  have "saved' = None \<longleftrightarrow> saved = None \<and> int64_value j"
    using decode_int64_None [of j saved 0] d by simp
  then show ?thesis
    by (auto simp add: kv st d saveError_not_None split: option.splits)
qed

lemma fold_decode_map_entry_None:
  "fst (fold decode_map_entry kvs st) = None \<longleftrightarrow>
     fst st = None \<and> list_all (\<lambda>kv. ParseInt (fst kv) \<noteq> None \<and> int64_value (snd kv)) kvs"
  by (induction kvs arbitrary: st) (auto simp add: decode_map_entry_None)

lemma decode_map_None:
  "fst (decode_map j (saved, cur)) = None \<longleftrightarrow> saved = None \<and> map_value j"
  by (cases j) (simp_all add: map_value_def saveError_not_None fold_decode_map_entry_None)

lemma set_string_None:
  "fst (set_string get upd j st) = None \<longleftrightarrow> fst st = None \<and> string_value j"
  using decode_string_None [of j "fst st" "get (snd st)"]
  by (cases "decode_string j (fst st, get (snd st))") (simp add: set_string_def)

lemma set_int64_None:
  "fst (set_int64 get upd j st) = None \<longleftrightarrow> fst st = None \<and> int64_value j"
  using decode_int64_None [of j "fst st" "get (snd st)"]
  by (cases "decode_int64 j (fst st, get (snd st))") (simp add: set_int64_def)

lemma set_map_None:
  "fst (set_map get upd j st) = None \<longleftrightarrow> fst st = None \<and> map_value j"
  using decode_map_None [of j "fst st" "get (snd st)"]
  by (cases "decode_map j (fst st, get (snd st))") (simp add: set_map_def)

lemma find_field_names: "find_field key = Some f \<Longrightarrow> f \<in> set field_names"
  by (auto simp add: find_field_def find_Some_iff split: if_splits)

lemma field_disj:
  assumes "f \<in> set field_names"
  shows "f = ''name'' \<or> f = ''method'' \<or> f = ''num_requests'' \<or> f = ''num_failures''
    \<or> f = ''total_response_time'' \<or> f = ''min_response_time'' \<or> f = ''max_response_time''
    \<or> f = ''num_reqs_per_sec'' \<or> f = ''num_fail_per_sec'' \<or> f = ''response_times''
    \<or> f = ''total_content_length''"
  using assms by (simp add: field_names_def)

lemma decode_field_None:
  "fst (decode_field kv st) = None \<longleftrightarrow>
     fst st = None \<and> (case find_field (fst kv) of None \<Rightarrow> True | Some f \<Rightarrow> accepts f (snd kv))"
proof (cases "find_field (fst kv)")
  case None
  then show ?thesis by (simp add: decode_field_def)
next
  case (Some f)
  then have "f \<in> set field_names" by (rule find_field_names)
  then have "f = ''name'' \<or> f = ''method'' \<or> f = ''num_requests'' \<or> f = ''num_failures''
    \<or> f = ''total_response_time'' \<or> f = ''min_response_time'' \<or> f = ''max_response_time''
    \<or> f = ''num_reqs_per_sec'' \<or> f = ''num_fail_per_sec'' \<or> f = ''response_times''
    \<or> f = ''total_content_length''"
    by (rule field_disj)
  then show ?thesis
    by (elim disjE)
      (simp_all add: Some decode_field_def accepts_def set_string_None set_int64_None set_map_None)
qed

lemma fold_decode_field_None:
  "fst (fold decode_field kvs st) = None \<longleftrightarrow>
     fst st = None
     \<and> list_all (\<lambda>kv. case find_field (fst kv) of None \<Rightarrow> True | Some f \<Rightarrow> accepts f (snd kv)) kvs"
  by (induction kvs arbitrary: st) (auto simp add: decode_field_None)

lemma json_Unmarshal_Inr:
  "(\<exists>e'. json_Unmarshal j e = Inr e') \<longleftrightarrow> json_shape_ok j"
proof (cases j)
  case (JObject kvs)
  obtain err e' where f: "fold decode_field kvs (None, e) = (err, e')"
    by (cases "fold decode_field kvs (None, e)")
  have "err = None \<longleftrightarrow>
      list_all (\<lambda>kv. case find_field (fst kv) of None \<Rightarrow> True | Some f \<Rightarrow> accepts f (snd kv)) kvs"
    using fold_decode_field_None [of kvs "(None, e)"] f by simp
  then show ?thesis
    by (cases err) (simp_all add: JObject json_Unmarshal_def json_shape_ok_def f)
qed (simp_all add: json_Unmarshal_def json_shape_ok_def)

lemma deserialize_transcodes:
  "(\<exists>entryOutput. deserializeStatsEntry F v = Inr entryOutput) \<longleftrightarrow> transcodes F v"
proof (cases "json_Marshal F v")
  case (Inl e)
  then show ?thesis by (simp add: deserializeStatsEntry_def transcodes_def)
next
  case (Inr j)
  show ?thesis
    using json_Unmarshal_Inr [of j statsEntry_zero]
    by (cases "json_Unmarshal j statsEntry_zero")
      (auto simp add: Inr deserializeStatsEntry_def transcodes_def Let_def)
qed

lemma all_transcode:
  "(\<exists>es. map (deserializeStatsEntry F) stats = map Inr es) \<longleftrightarrow> list_all (transcodes F) stats"
proof (induction stats)
  case Nil
  then show ?case by simp
next
  case (Cons stat rest)
  have "(\<exists>es. map (deserializeStatsEntry F) (stat # rest) = map Inr es) \<longleftrightarrow>
      (\<exists>e. deserializeStatsEntry F stat = Inr e)
      \<and> (\<exists>es. map (deserializeStatsEntry F) rest = map Inr es)"
    by (auto simp add: Cons_eq_map_conv)
  with Cons show ?case
    by (simp add: deserialize_transcodes)
qed

lemma decode_mistyped:
  "deserializeStatsEntry exact_ops group_mistyped = Inl (UnmarshalTypeError ''string'' ''int64'')"
  unfolding group_mistyped_def by code_simp

text \<open>
  C2 does not hold as it is stated: an event without \<^verbatim>\<open>stats_total\<close>, and whose one
  per-group object lacks nine of the eleven fields, is decoded without an error.
\<close>

theorem C2_absent_fields_counterexample:
  "[''user_count'' \<mapsto> DInt32 3, ''stats'' \<mapsto> DSlice [group_a]] ''stats_total'' = None
   \<and> group_a = DMap [(''num_requests'', DInt64 6), (''name'', DString ''/a'')]
   \<and> convertData exact_ops [''user_count'' \<mapsto> DInt32 3, ''stats'' \<mapsto> DSlice [group_a]]
       = Inr \<lparr>UserCount = 3, TotalStats = zero_output exact_ops, TotalRPS = 0, TotalFailRatio = 0,
              Stats = [entry_a], Errors = []\<rparr>"
proof -
  have z: "f64_zero exact_ops = 0" by (simp add: exact_ops_def)
  have "convertData exact_ops [''user_count'' \<mapsto> DInt32 3, ''stats'' \<mapsto> DSlice [group_a]]
       = Inr \<lparr>UserCount = 3, TotalStats = zero_output exact_ops, TotalRPS = 0, TotalFailRatio = 0,
              Stats = [entry_a], Errors = []\<rparr>"
    by (simp add: convertData_Inr map_index_def decode_a deserialize_nil zero_output_def
        statsEntry_zero_def getCurrentRps_def getTotalFailRatio_def len64_def z)
  then show ?thesis by (simp add: group_a_def)
qed

text \<open>
  C2, as the code has it: \<^verbatim>\<open>convertData\<close> returns a snapshot exactly when
  \<^verbatim>\<open>user_count\<close> holds an \<^verbatim>\<open>int32\<close>, \<^verbatim>\<open>stats\<close> holds a list, and \<^verbatim>\<open>stats_total\<close> and
  every element of the list transcode; in every other case it returns an error and no
  snapshot (with the messages \<^verbatim>\<open>user_count is not int32\<close> and
  \<^verbatim>\<open>stats is not []interface{}\<close> for the first two). A value transcodes when it can
  be marshalled and its JSON text is \<^verbatim>\<open>null\<close> or an object in which every member that
  selects a field holds a value of the field's type: a field of another type is an
  error, while a field that is absent, and a \<^verbatim>\<open>stats_total\<close> that is absent or nil, is
  none and leaves the zero value. A snapshot that is returned has all its parts: the
  user count, the decoded total with the total RPS and fail ratio computed from it,
  and the decoded entries.
\<close>

theorem C2_decode_errors:
  "((\<forall>v. map_index data ''user_count'' \<noteq> DInt32 v) \<longrightarrow>
      convertData F data = Inl (Errorf ''user_count is not int32''))
   \<and> (map_index data ''user_count'' = DInt32 userCount
        \<and> assert_slice (map_index data ''stats'') = None \<longrightarrow>
      convertData F data = Inl (Errorf ''stats is not []interface{}''))
   \<and> ((\<exists>out. convertData F data = Inr out) \<longleftrightarrow>
        (\<exists>u. map_index data ''user_count'' = DInt32 u)
        \<and> (\<exists>stats. assert_slice (map_index data ''stats'') = Some stats
                    \<and> list_all (transcodes F) stats)
        \<and> transcodes F (map_index data ''stats_total''))
   \<and> ((\<exists>err. convertData F data = Inl err) \<longleftrightarrow> \<not> (\<exists>out. convertData F data = Inr out))
   \<and> (convertData F data = Inr out \<longrightarrow>
        map_index data ''user_count'' = DInt32 (UserCount out)
        \<and> deserializeStatsEntry F (map_index data ''stats_total'') = Inr (TotalStats out)
        \<and> (\<exists>stats. assert_slice (map_index data ''stats'') = Some stats
                    \<and> map (deserializeStatsEntry F) stats = map Inr (Stats out))
        \<and> TotalRPS out = getCurrentRps (NumRequests (statsEntry (TotalStats out)))
                            (NumReqsPerSec (statsEntry (TotalStats out)))
        \<and> TotalFailRatio out = getTotalFailRatio F (NumRequests (statsEntry (TotalStats out)))
                                  (NumFailures (statsEntry (TotalStats out))))
   \<and> transcodes F DNil
   \<and> ((\<exists>entryOutput. deserializeStatsEntry F v = Inr entryOutput) \<longleftrightarrow> transcodes F v)"
proof -
  have 1: "(\<forall>v. map_index data ''user_count'' \<noteq> DInt32 v) \<longrightarrow>
      convertData F data = Inl (Errorf ''user_count is not int32'')"
  proof
    assume "\<forall>v. map_index data ''user_count'' \<noteq> DInt32 v"
    then have "assert_int32 (map_index data ''user_count'') = None"
      by (cases "map_index data ''user_count''") simp_all
    then show "convertData F data = Inl (Errorf ''user_count is not int32'')"
      by (simp add: convertData_def)
  qed
  have 2: "map_index data ''user_count'' = DInt32 userCount
        \<and> assert_slice (map_index data ''stats'') = None \<longrightarrow>
      convertData F data = Inl (Errorf ''stats is not []interface{}'')"
    by (simp add: convertData_def)
  have 3: "(\<exists>out. convertData F data = Inr out) \<longleftrightarrow>
        (\<exists>u. map_index data ''user_count'' = DInt32 u)
        \<and> (\<exists>stats. assert_slice (map_index data ''stats'') = Some stats
                    \<and> list_all (transcodes F) stats)
        \<and> transcodes F (map_index data ''stats_total'')"
    unfolding convertData_Inr assert_int32_Some
    using all_transcode [of F] deserialize_transcodes [of F "map_index data ''stats_total''"]
    by (simp add: ex_simps [symmetric] del: ex_simps) blast
  have 4: "(\<exists>err. convertData F data = Inl err) \<longleftrightarrow> \<not> (\<exists>out. convertData F data = Inr out)"
    by (cases "convertData F data") simp_all
  have 5: "convertData F data = Inr out \<longrightarrow>
        map_index data ''user_count'' = DInt32 (UserCount out)
        \<and> deserializeStatsEntry F (map_index data ''stats_total'') = Inr (TotalStats out)
        \<and> (\<exists>stats. assert_slice (map_index data ''stats'') = Some stats
                    \<and> map (deserializeStatsEntry F) stats = map Inr (Stats out))
        \<and> TotalRPS out = getCurrentRps (NumRequests (statsEntry (TotalStats out)))
                            (NumReqsPerSec (statsEntry (TotalStats out)))
        \<and> TotalFailRatio out = getTotalFailRatio F (NumRequests (statsEntry (TotalStats out)))
                                  (NumFailures (statsEntry (TotalStats out)))"
    by (auto simp add: convertData_Inr assert_int32_Some)
  have 6: "transcodes F DNil"
    by (simp add: transcodes_def json_shape_ok_def)
  from 1 2 3 4 5 6 deserialize_transcodes [of F v] show ?thesis
    by (intro conjI)
qed

theorem C2_decode_errors_witness:
  "(\<forall>v. map_index [''user_count'' \<mapsto> DFloat64 (3 :: rat), ''stats'' \<mapsto> DSlice [group_a]]
          ''user_count'' \<noteq> DInt32 v)
   \<and> convertData exact_ops [''user_count'' \<mapsto> DFloat64 3, ''stats'' \<mapsto> DSlice [group_a]]
       = Inl (Errorf ''user_count is not int32'')
   \<and> map_index [''user_count'' \<mapsto> DInt32 3, ''stats'' \<mapsto> group_a] ''user_count'' = DInt32 3
   \<and> assert_slice (map_index [''user_count'' \<mapsto> DInt32 3, ''stats'' \<mapsto> group_a] ''stats'') = None
   \<and> convertData exact_ops [''user_count'' \<mapsto> DInt32 3, ''stats'' \<mapsto> group_a]
       = Inl (Errorf ''stats is not []interface{}'')
   \<and> convertData exact_ops
        [''user_count'' \<mapsto> DInt32 3, ''stats'' \<mapsto> DSlice [group_b, group_a, group_b]]
       = Inr \<lparr>UserCount = 3, TotalStats = zero_output exact_ops, TotalRPS = 0, TotalFailRatio = 0,
              Stats = [entry_b, entry_a, entry_b], Errors = []\<rparr>
   \<and> list_all (transcodes exact_ops) [group_b, group_a, group_b]
   \<and> transcodes exact_ops DNil
   \<and> deserializeStatsEntry exact_ops group_mistyped = Inl (UnmarshalTypeError ''string'' ''int64'')
   \<and> \<not> transcodes exact_ops group_mistyped
   \<and> convertData exact_ops
        [''user_count'' \<mapsto> DInt32 3, ''stats'' \<mapsto> DSlice [group_a, group_mistyped]]
       = Inl (UnmarshalTypeError ''string'' ''int64'')
   \<and> convertData exact_ops
        [''user_count'' \<mapsto> DInt32 3, ''stats'' \<mapsto> DSlice [], ''stats_total'' \<mapsto> group_mistyped]
       = Inl (UnmarshalTypeError ''string'' ''int64'')"
proof -
  let ?f = "[''user_count'' \<mapsto> DFloat64 (3 :: rat), ''stats'' \<mapsto> DSlice [group_a]]"
  let ?s = "[''user_count'' \<mapsto> DInt32 3, ''stats'' \<mapsto> group_a]"
  let ?ev = "[''user_count'' \<mapsto> DInt32 3, ''stats'' \<mapsto> DSlice [group_b, group_a, group_b]]"
  let ?out = "\<lparr>UserCount = 3, TotalStats = zero_output exact_ops, TotalRPS = 0,
    TotalFailRatio = 0, Stats = [entry_b, entry_a, entry_b], Errors = []\<rparr>"
  let ?m = "[''user_count'' \<mapsto> DInt32 3, ''stats'' \<mapsto> DSlice [group_a, group_mistyped]]"
  let ?t = "[''user_count'' \<mapsto> DInt32 3, ''stats'' \<mapsto> DSlice [], ''stats_total'' \<mapsto> group_mistyped]"
  have f: "\<forall>v. map_index ?f ''user_count'' \<noteq> DInt32 v"
    by (simp add: map_index_def)
  from f C2_decode_errors [of ?f exact_ops 3 ?out DNil]
  have a: "convertData exact_ops ?f = Inl (Errorf ''user_count is not int32'')"
    by blast
  have s1: "map_index ?s ''user_count'' = DInt32 3"
    and s2: "assert_slice (map_index ?s ''stats'') = None"
    by (simp_all add: map_index_def group_a_def)
  from s1 s2 C2_decode_errors [of ?s exact_ops 3 ?out DNil]
  have b: "convertData exact_ops ?s = Inl (Errorf ''stats is not []interface{}'')"
    by blast
  have l: "assert_slice (map_index ?ev ''stats'') = Some [group_b, group_a, group_b]"
    by (simp add: map_index_def)
  from convert_example C2_decode_errors [of ?ev exact_ops 3 ?out DNil]
  have "\<exists>stats. assert_slice (map_index ?ev ''stats'') = Some stats
      \<and> list_all (transcodes exact_ops) stats"
    by blast
  with l have c: "list_all (transcodes exact_ops) [group_b, group_a, group_b]"
    by simp
  from C2_decode_errors [of ?ev exact_ops 3 ?out group_mistyped]
  have n: "transcodes exact_ops DNil"
    and "(\<exists>entryOutput. deserializeStatsEntry exact_ops group_mistyped = Inr entryOutput)
      \<longleftrightarrow> transcodes exact_ops group_mistyped"
    by blast+
  then have d: "\<not> transcodes exact_ops group_mistyped"
    by (simp add: decode_mistyped)
  have m: "convertData exact_ops ?m = Inl (UnmarshalTypeError ''string'' ''int64'')"
    by (simp add: convertData_def map_index_def deserialize_nil decode_a decode_mistyped)
  have t: "convertData exact_ops ?t = Inl (UnmarshalTypeError ''string'' ''int64'')"
    by (simp add: convertData_def map_index_def decode_mistyped)
  from f a s1 s2 b convert_example c n decode_mistyped d m t show ?thesis
    by (intro conjI)
qed

end
